theory Spec2Isabelle
  imports Main "HOL-Library.Word"
begin

unbundle bit_operations_syntax

section \<open>The interposition layer of the Linux sandbox (detours.cpp)\<close>

text \<open>
  The theory embeds the interposed entry points of
  \<^verbatim>\<open>Public/Src/Sandbox/Linux/detours.cpp\<close>. Every entry point is a function that takes
  the state of the calling process (the observer singleton \<^verbatim>\<open>bxl\<close> together with the
  process facts the code reads through \<^verbatim>\<open>getpid()\<close>, \<^verbatim>\<open>getppid()\<close> and
  \<^verbatim>\<open>errno\<close>) and returns the value handed back to the caller with the new state.
  The state keeps three logs, oldest entry first: the events handed to the access
  checker, the events handed to the reporter, and the real primitives invoked. What the
  code reads from outside the file (the file system, the manifest, the result of a real
  primitive) is a parameter.
\<close>

subsection \<open>Constants of the system headers (Linux, generic values)\<close>

type_synonym cint = "32 word"
type_synonym mode_t = "32 word"

definition ERROR_RETURN_VALUE :: int where "ERROR_RETURN_VALUE = - 1"
definition EPERM :: int where "EPERM = 1"
definition ENOENT :: int where "ENOENT = 2"
definition AT_FDCWD :: int where "AT_FDCWD = - 100"

definition O_WRONLY :: cint where "O_WRONLY = 1"
definition O_RDWR :: cint where "O_RDWR = 2"
definition O_ACCMODE :: cint where "O_ACCMODE = 3"
definition O_CREAT :: cint where "O_CREAT = 64"
definition O_TRUNC :: cint where "O_TRUNC = 512"
definition O_NOFOLLOW :: cint where "O_NOFOLLOW = 131072"
definition AT_REMOVEDIR :: cint where "AT_REMOVEDIR = 512"
definition AT_SYMLINK_FOLLOW :: cint where "AT_SYMLINK_FOLLOW = 1024"
definition CLONE_THREAD :: cint where "CLONE_THREAD = 65536"

definition S_IFMT :: mode_t where "S_IFMT = 61440"
definition S_IFDIR :: mode_t where "S_IFDIR = 16384"

definition S_ISDIR :: "mode_t \<Rightarrow> bool" where
  "S_ISDIR m = (m AND S_IFMT = S_IFDIR)"

text \<open>A C condition is an integer: a comparison yields 1 or 0.\<close>

definition c_bool :: "bool \<Rightarrow> cint" where
  "c_bool b = (if b then 1 else 0)"

subsection \<open>Events\<close>

datatype EventType =
  kOpen | kGenericRead | kGenericWrite | kGenericProbe | kCreate | kUnlink | kLink
  | kReadLink | kExec | kClone | kExit

text \<open>
  Modelled from the spec: the declaration of \<^verbatim>\<open>RequiredPathResolution\<close> is outside
  detours.cpp, which names only \<^verbatim>\<open>kResolveNoFollow\<close>; the spec gives the policy the two
  values resolve-fully and resolve-no-follow-last.
\<close>

datatype RequiredPathResolution = kFullyResolve | kResolveNoFollow

text \<open>
  Modelled from the spec: \<^verbatim>\<open>AccessCheckResult\<close> is declared outside detours.cpp; the
  spec gives a decision the three values allow, warn and deny.
\<close>

datatype AccessCheckResult = Allow | Warn | Deny

text \<open>
  Modelled from the spec: the class \<^verbatim>\<open>SandboxEvent\<close> is declared outside detours.cpp.
  The fields are those of the spec's event record; \<^verbatim>\<open>src_fd\<close> is \<open>- 1\<close> for "none" and
  \<^verbatim>\<open>access_check\<close> is \<open>None\<close> until the access checker has stamped the event.
\<close>

record SandboxEvent =
  system_call :: string
  event_type :: EventType
  pid :: int
  ppid :: int
  error :: int
  src_path :: string
  src_fd :: int
  dst_path :: string
  mode :: mode_t
  required_path_resolution :: RequiredPathResolution
  command_line :: string
  log_disabled :: bool
  access_check :: "AccessCheckResult option"

text \<open>
  Modelled from the spec: the four constructor shapes. Path-shaped constructors mark the
  resolution policy as resolve-fully; a \<^verbatim>\<open>const char *\<close> source path is a string.
\<close>

definition AbsolutePathSandboxEvent ::
  "string \<Rightarrow> EventType \<Rightarrow> int \<Rightarrow> int \<Rightarrow> int \<Rightarrow> string \<Rightarrow> SandboxEvent" where
  "AbsolutePathSandboxEvent sc ty p pp err path =
     \<lparr>system_call = sc, event_type = ty, pid = p, ppid = pp, error = err,
      src_path = path, src_fd = - 1, dst_path = [], mode = 0,
      required_path_resolution = kFullyResolve, command_line = [],
      log_disabled = False, access_check = None\<rparr>"

definition RelativePathSandboxEvent ::
  "string \<Rightarrow> EventType \<Rightarrow> int \<Rightarrow> int \<Rightarrow> int \<Rightarrow> string \<Rightarrow> int \<Rightarrow> SandboxEvent" where
  "RelativePathSandboxEvent sc ty p pp err path fd =
     \<lparr>system_call = sc, event_type = ty, pid = p, ppid = pp, error = err,
      src_path = path, src_fd = fd, dst_path = [], mode = 0,
      required_path_resolution = kFullyResolve, command_line = [],
      log_disabled = False, access_check = None\<rparr>"

definition FileDescriptorSandboxEvent ::
  "string \<Rightarrow> EventType \<Rightarrow> int \<Rightarrow> int \<Rightarrow> int \<Rightarrow> int \<Rightarrow> SandboxEvent" where
  "FileDescriptorSandboxEvent sc ty p pp err fd =
     \<lparr>system_call = sc, event_type = ty, pid = p, ppid = pp, error = err,
      src_path = [], src_fd = fd, dst_path = [], mode = 0,
      required_path_resolution = kFullyResolve, command_line = [],
      log_disabled = False, access_check = None\<rparr>"

definition CloneSandboxEvent :: "string \<Rightarrow> int \<Rightarrow> int \<Rightarrow> string \<Rightarrow> SandboxEvent" where
  "CloneSandboxEvent sc p pp path =
     \<lparr>system_call = sc, event_type = kClone, pid = p, ppid = pp, error = 0,
      src_path = path, src_fd = - 1, dst_path = [], mode = 0,
      required_path_resolution = kFullyResolve, command_line = [],
      log_disabled = False, access_check = None\<rparr>"

definition ExecSandboxEvent :: "string \<Rightarrow> int \<Rightarrow> int \<Rightarrow> string \<Rightarrow> string \<Rightarrow> SandboxEvent" where
  "ExecSandboxEvent sc p pp path cmd =
     \<lparr>system_call = sc, event_type = kExec, pid = p, ppid = pp, error = 0,
      src_path = path, src_fd = - 1, dst_path = [], mode = 0,
      required_path_resolution = kFullyResolve, command_line = cmd,
      log_disabled = False, access_check = None\<rparr>"

definition SetErrno :: "int \<Rightarrow> SandboxEvent \<Rightarrow> SandboxEvent" where
  "SetErrno e event = event\<lparr>error := e\<rparr>"

definition SetMode :: "mode_t \<Rightarrow> SandboxEvent \<Rightarrow> SandboxEvent" where
  "SetMode m event = event\<lparr>mode := m\<rparr>"

definition SetRequiredPathResolution :: "RequiredPathResolution \<Rightarrow> SandboxEvent \<Rightarrow> SandboxEvent" where
  "SetRequiredPathResolution r event = event\<lparr>required_path_resolution := r\<rparr>"

definition DisableLogging :: "SandboxEvent \<Rightarrow> SandboxEvent" where
  "DisableLogging event = event\<lparr>log_disabled := True\<rparr>"

subsection \<open>The world outside the file\<close>

text \<open>
  What the interposed code asks of the file system and of the manifest: the answers are
  parameters. \<^verbatim>\<open>get_mode\<close> is 0 for an absent path; \<^verbatim>\<open>EnumerateDirectory\<close> is \<open>None\<close>
  when the enumeration fails; \<^verbatim>\<open>policy\<close> is the decision of the manifest for an event;
  \<^verbatim>\<open>Invalid\<close> is the value of \<^verbatim>\<open>AccessCheckResult::Invalid()\<close>, which the spec does not
  name. Reports that \<^verbatim>\<open>normalize_path_at\<close> sends on its own for the symlinks it
  traverses are not part of the model: only the string it returns is. \<^verbatim>\<open>is_breakaway\<close>
  and \<^verbatim>\<open>requires_ptrace\<close> are the answers of \<^verbatim>\<open>SendBreakawayReportIfNeeded\<close> and of
  \<^verbatim>\<open>check_and_report_process_requires_ptrace\<close>; what these two report on their own is
  not part of the model either. \<^verbatim>\<open>proc_self_fd\<close> is the kernel's answer for the path
  behind a descriptor, \<open>None\<close> for a descriptor that is not open.
\<close>

record sys =
  get_mode :: "string \<Rightarrow> mode_t"
  normalize_path_at :: "int \<Rightarrow> string \<Rightarrow> cint \<Rightarrow> string"
  EnumerateDirectory :: "string \<Rightarrow> string list option"
  is_symlink :: "string \<Rightarrow> bool"
  policy :: "SandboxEvent \<Rightarrow> AccessCheckResult"
  Invalid :: AccessCheckResult
  is_breakaway :: "string \<Rightarrow> bool"
  requires_ptrace :: "string \<Rightarrow> bool"
  resolve_filename_with_env :: "string \<Rightarrow> (mode_t \<times> string) option"
  proc_self_fd :: "int \<rightharpoonup> string"

subsection \<open>The calling process and its observer\<close>

type_synonym env = "(string \<times> string) list"

text \<open>
  A real primitive invoked by the shim: by name, and for the exec family with the path
  (the descriptor, for fexecve) and the environment it was given.
\<close>

datatype real_call =
  Real string
  | RealExec string string env
  | RealExecFd string int env
  | PTraceExec string env string

record BxlObserver =
  getpid :: int
  getppid :: int
  errno :: int
  GetProgramPath :: string
  getFamPath :: string
  GetDetoursLibPath :: string
  environ :: env
  fd_table :: "int \<rightharpoonup> string"
  accesses :: "SandboxEvent list"
  reports :: "SandboxEvent list"
  forwarded :: "real_call list"

text \<open>\<^verbatim>\<open>result_t<T>\<close>: the value of a real primitive with the errno it left.\<close>

record 'a result_t =
  get :: 'a
  get_errno :: int

definition restore :: "'a result_t \<Rightarrow> BxlObserver \<Rightarrow> 'a \<times> BxlObserver" where
  "restore result bxl = (get result, bxl\<lparr>errno := get_errno result\<rparr>)"

text \<open>Propagates errno when the result is -1.\<close>

definition get_errno_from_result :: "int result_t \<Rightarrow> int" where
  "get_errno_from_result result = (if get result = - 1 then get_errno result else 0)"

text \<open>
  Modelled from the spec: the methods of \<^verbatim>\<open>BxlObserver\<close> are outside detours.cpp.
  \<^verbatim>\<open>fwd_X\<close> and \<^verbatim>\<open>real_X\<close> invoke the real primitive \<^verbatim>\<open>X\<close>, whose result is the
  parameter \<open>r\<close>. \<^verbatim>\<open>CreateAccess\<close> consults the access checker and stamps the event with
  the decision; \<^verbatim>\<open>SendReport\<close> hands the event to the reporter;
  \<^verbatim>\<open>CreateAndReportAccess\<close> does both. The flag \<^verbatim>\<open>check_cache\<close> selects the reporter's
  deduplication, which is downstream of these logs and not modelled. A decision is
  denied when it is deny; decisions combine by deny > warn > allow.
\<close>

definition fwd :: "string \<Rightarrow> 'a result_t \<Rightarrow> BxlObserver \<Rightarrow> 'a result_t \<times> BxlObserver" where
  "fwd name r bxl = (r, bxl\<lparr>forwarded := forwarded bxl @ [Real name]\<rparr>)"

definition SendReport :: "SandboxEvent \<Rightarrow> BxlObserver \<Rightarrow> BxlObserver" where
  "SendReport event bxl = bxl\<lparr>reports := reports bxl @ [event]\<rparr>"

definition CreateAccess ::
  "sys \<Rightarrow> SandboxEvent \<Rightarrow> bool \<Rightarrow> BxlObserver \<Rightarrow> AccessCheckResult \<times> SandboxEvent \<times> BxlObserver" where
  "CreateAccess sy event check_cache bxl =
     (let check = policy sy event;
          event = event\<lparr>access_check := Some check\<rparr>
      in (check, event, bxl\<lparr>accesses := accesses bxl @ [event]\<rparr>))"

definition CreateAndReportAccess :: "sys \<Rightarrow> SandboxEvent \<Rightarrow> bool \<Rightarrow> BxlObserver \<Rightarrow> BxlObserver" where
  "CreateAndReportAccess sy event check_cache bxl =
     (let (check, event, bxl) = CreateAccess sy event check_cache bxl
      in SendReport event bxl)"

definition should_deny :: "AccessCheckResult \<Rightarrow> bool" where
  "should_deny check = (check = Deny)"

fun Combine :: "AccessCheckResult \<Rightarrow> AccessCheckResult \<Rightarrow> AccessCheckResult" where
  "Combine Deny _ = Deny"
| "Combine _ Deny = Deny"
| "Combine Warn _ = Warn"
| "Combine _ Warn = Warn"
| "Combine Allow Allow = Allow"

definition GetSourceAccessCheckResult :: "sys \<Rightarrow> SandboxEvent \<Rightarrow> AccessCheckResult" where
  "GetSourceAccessCheckResult sy event =
     (case access_check event of Some check \<Rightarrow> check | None \<Rightarrow> Invalid sy)"

text \<open>
  Modelled from the spec: \<^verbatim>\<open>check_fwd_and_report_X\<close> is outside detours.cpp. On deny it
  reports the event, sets the error indicator and returns the failure value of the call,
  without invoking the real primitive; otherwise it invokes the real primitive, stamps
  the event with the resulting errno and reports it.
\<close>

definition check_fwd_and_report ::
  "sys \<Rightarrow> string \<Rightarrow> SandboxEvent \<Rightarrow> 'a \<Rightarrow> 'a result_t \<Rightarrow> BxlObserver \<Rightarrow> 'a \<times> BxlObserver" where
  "check_fwd_and_report sy name event error_val r bxl =
     (if should_deny (GetSourceAccessCheckResult sy event)
      then (error_val, (SendReport event bxl)\<lparr>errno := EPERM\<rparr>)
      else
        (let (result, bxl) = fwd name r bxl;
             event = SetErrno (get_errno result) event
         in restore result (SendReport event bxl)))"

subsection \<open>readlink\<close>

text \<open>
  \<^verbatim>\<open>INTERPOSE_SOMETIMES(ret, name, short_circuit_check, args)(body)\<close>: the macro is
  outside detours.cpp; as its use for \<^verbatim>\<open>__fxstat64\<close> says, the short-circuit check runs
  first, before the observer is consulted, and the body runs only when the check did
  not return. A null \<^verbatim>\<open>path\<close> is \<open>None\<close>; the body then builds its event with the empty
  source path.
\<close>

definition readlink ::
  "sys \<Rightarrow> (string option \<Rightarrow> int result_t) \<Rightarrow> string option \<Rightarrow> BxlObserver \<Rightarrow> int \<times> BxlObserver" where
  "readlink sy real_readlink path bxl =
     (if path \<noteq> None \<and> path = Some ''/etc/malloc.conf''
      then (- 1, bxl\<lparr>errno := ENOENT\<rparr>)
      else
        (let event = AbsolutePathSandboxEvent ''readlink'' kReadLink (getpid bxl) (getppid bxl) 0
                       (case path of None \<Rightarrow> [] | Some p \<Rightarrow> p);
             event = SetRequiredPathResolution kResolveNoFollow event;
             (check, event, bxl) = CreateAccess sy event True bxl
         in check_fwd_and_report sy ''readlink'' event ERROR_RETURN_VALUE (real_readlink path) bxl))"

subsection \<open>FILE streams\<close>

text \<open>A \<^verbatim>\<open>FILE *\<close> is known to the shim through \<^verbatim>\<open>fileno\<close> only: - 1 when the stream
  is not associated with a file.\<close>

record FILE =
  fileno :: int

definition fread ::
  "sys \<Rightarrow> ('p \<times> nat \<times> nat \<times> FILE \<Rightarrow> nat result_t) \<Rightarrow> 'p \<Rightarrow> nat \<Rightarrow> nat \<Rightarrow> FILE
     \<Rightarrow> BxlObserver \<Rightarrow> nat \<times> BxlObserver" where
  "fread sy real_fread ptr size' nmemb stream bxl =
     (let stream_fd = fileno stream in
      if stream_fd = - 1
      then (let (r, bxl) = fwd ''fread'' (real_fread (ptr, size', nmemb, stream)) bxl in restore r bxl)
      else
        (let event = FileDescriptorSandboxEvent ''fread'' kOpen (getpid bxl) (getppid bxl) 0 stream_fd;
             (check, event, bxl) = CreateAccess sy event True bxl
         in check_fwd_and_report sy ''fread'' event 0 (real_fread (ptr, size', nmemb, stream)) bxl))"

definition fwrite ::
  "sys \<Rightarrow> ('p \<times> nat \<times> nat \<times> FILE \<Rightarrow> nat result_t) \<Rightarrow> 'p \<Rightarrow> nat \<Rightarrow> nat \<Rightarrow> FILE
     \<Rightarrow> BxlObserver \<Rightarrow> nat \<times> BxlObserver" where
  "fwrite sy real_fwrite ptr size' nmemb stream bxl =
     (let stream_fd = fileno stream in
      if stream_fd = - 1
      then (let (r, bxl) = fwd ''fwrite'' (real_fwrite (ptr, size', nmemb, stream)) bxl in restore r bxl)
      else
        (let event = FileDescriptorSandboxEvent ''fwrite'' kGenericWrite (getpid bxl) (getppid bxl) 0 stream_fd;
             (check, event, bxl) = CreateAccess sy event True bxl
         in check_fwd_and_report sy ''fwrite'' event 0 (real_fwrite (ptr, size', nmemb, stream)) bxl))"

definition fputc ::
  "sys \<Rightarrow> (int \<times> FILE \<Rightarrow> int result_t) \<Rightarrow> int \<Rightarrow> FILE \<Rightarrow> BxlObserver \<Rightarrow> int \<times> BxlObserver" where
  "fputc sy real_fputc c stream bxl =
     (let stream_fd = fileno stream in
      if stream_fd = - 1
      then (let (r, bxl) = fwd ''fputc'' (real_fputc (c, stream)) bxl in restore r bxl)
      else
        (let event = FileDescriptorSandboxEvent ''fputc'' kGenericWrite (getpid bxl) (getppid bxl) 0 stream_fd;
             (check, event, bxl) = CreateAccess sy event True bxl
         in check_fwd_and_report sy ''fputc'' event ERROR_RETURN_VALUE (real_fputc (c, stream)) bxl))"

definition fputs ::
  "sys \<Rightarrow> (string \<times> FILE \<Rightarrow> int result_t) \<Rightarrow> string \<Rightarrow> FILE \<Rightarrow> BxlObserver \<Rightarrow> int \<times> BxlObserver" where
  "fputs sy real_fputs s stream bxl =
     (let stream_fd = fileno stream in
      if stream_fd = - 1
      then (let (r, bxl) = fwd ''fputs'' (real_fputs (s, stream)) bxl in restore r bxl)
      else
        (let event = FileDescriptorSandboxEvent ''fputs'' kGenericWrite (getpid bxl) (getppid bxl) 0 stream_fd;
             (check, event, bxl) = CreateAccess sy event True bxl
         in check_fwd_and_report sy ''fputs'' event ERROR_RETURN_VALUE (real_fputs (s, stream)) bxl))"

definition putc ::
  "sys \<Rightarrow> (int \<times> FILE \<Rightarrow> int result_t) \<Rightarrow> int \<Rightarrow> FILE \<Rightarrow> BxlObserver \<Rightarrow> int \<times> BxlObserver" where
  "putc sy real_putc c stream bxl =
     (let stream_fd = fileno stream in
      if stream_fd = - 1
      then (let (r, bxl) = fwd ''putc'' (real_putc (c, stream)) bxl in restore r bxl)
      else
        (let event = FileDescriptorSandboxEvent ''putc'' kGenericWrite (getpid bxl) (getppid bxl) 0 stream_fd;
             event = DisableLogging event;
             (check, event, bxl) = CreateAccess sy event True bxl
         in check_fwd_and_report sy ''putc'' event ERROR_RETURN_VALUE (real_putc (c, stream)) bxl))"

definition vfprintf ::
  "sys \<Rightarrow> (FILE \<times> string \<times> 'v \<Rightarrow> int result_t) \<Rightarrow> FILE \<Rightarrow> string \<Rightarrow> 'v \<Rightarrow> BxlObserver
     \<Rightarrow> int \<times> BxlObserver" where
  "vfprintf sy real_vfprintf f fmt args bxl =
     (let stream_fd = fileno f in
      if stream_fd = - 1
      then (let (r, bxl) = fwd ''vfprintf'' (real_vfprintf (f, fmt, args)) bxl in restore r bxl)
      else
        (let event = FileDescriptorSandboxEvent ''vfprintf'' kGenericWrite (getpid bxl) (getppid bxl) 0 stream_fd;
             (check, event, bxl) = CreateAccess sy event True bxl;
             (r, bxl) = fwd ''vfprintf'' (real_vfprintf (f, fmt, args)) bxl
         in restore r bxl))"

subsection \<open>The FD table\<close>

text \<open>
  Modelled from the spec: the FD table's operations are outside detours.cpp.
  \<^verbatim>\<open>reset_fd_table_entry\<close> drops any cached entry of a descriptor,
  \<^verbatim>\<open>reset_fd_table\<close> drops them all.
\<close>

definition reset_fd_table_entry :: "int \<Rightarrow> BxlObserver \<Rightarrow> BxlObserver" where
  "reset_fd_table_entry fd bxl = bxl\<lparr>fd_table := (fd_table bxl)(fd := None)\<rparr>"

definition reset_fd_table :: "BxlObserver \<Rightarrow> BxlObserver" where
  "reset_fd_table bxl = bxl\<lparr>fd_table := Map.empty\<rparr>"

text \<open>when returning a new file descriptor we remove it from our cache,
  because presumably the path has changed\<close>

definition ret_fd :: "int \<Rightarrow> BxlObserver \<Rightarrow> int \<times> BxlObserver" where
  "ret_fd fd bxl = (fd, reset_fd_table_entry fd bxl)"

subsection \<open>open, openat and their 64-bit variants\<close>

definition normalize_path :: "sys \<Rightarrow> string \<Rightarrow> cint \<Rightarrow> string" where
  "normalize_path sy path oflags = normalize_path_at sy AT_FDCWD path oflags"

text \<open>
  report "Create" if path does not exist and O_CREAT or O_TRUNC is specified;
  report "Write" if path exists and O_CREAT or O_TRUNC is specified;
  otherwise, report "Read".
  The test of the last \<^verbatim>\<open>if\<close> is written \<^verbatim>\<open>oflag & O_NOFOLLOW != 0\<close>; in C the
  comparison binds tighter than \<^verbatim>\<open>&\<close>, so the operand of \<^verbatim>\<open>&\<close> is the value of the
  comparison.
\<close>

definition CreateFileOpen ::
  "sys \<Rightarrow> string \<Rightarrow> cint \<Rightarrow> BxlObserver \<Rightarrow> SandboxEvent \<times> BxlObserver" where
  "CreateFileOpen sy pathStr oflag bxl =
     (let pathMode = get_mode sy pathStr;
          pathExists = (pathMode \<noteq> 0);
          isCreate = (\<not> pathExists \<and> (oflag AND (O_CREAT OR O_TRUNC)) \<noteq> 0);
          hasWriteAccess = ((oflag AND O_ACCMODE) = O_WRONLY \<or> (oflag AND O_ACCMODE) = O_RDWR);
          isWrite = (pathExists \<and> ((oflag AND (O_CREAT OR O_TRUNC)) \<noteq> 0 \<and> hasWriteAccess));
          event = AbsolutePathSandboxEvent ''CreateFileOpen''
                    (if isCreate then kCreate else if isWrite then kGenericWrite else kOpen)
                    (getpid bxl) (getppid bxl) 0 pathStr;
          event = SetMode pathMode event;
          event = (if (oflag AND c_bool (O_NOFOLLOW \<noteq> 0)) \<noteq> 0
                   then SetRequiredPathResolution kResolveNoFollow event else event);
          (check, event, bxl) = CreateAccess sy event True bxl
      in (event, bxl))"

text \<open>\<^verbatim>\<open>open\<close> is a keyword of the theory language: the entry point is \<open>open'\<close> here.\<close>

definition open' ::
  "sys \<Rightarrow> (string \<times> cint \<times> mode_t \<Rightarrow> int result_t) \<Rightarrow> string \<Rightarrow> cint \<Rightarrow> mode_t
     \<Rightarrow> BxlObserver \<Rightarrow> int \<times> BxlObserver" where
  "open' sy real_open path oflag md bxl =
     (let pathStr = normalize_path sy path 0;
          (event, bxl) = CreateFileOpen sy pathStr oflag bxl;
          (fd, bxl) = check_fwd_and_report sy ''open'' event ERROR_RETURN_VALUE
                        (real_open (path, oflag, md)) bxl
      in ret_fd fd bxl)"

definition open64 ::
  "sys \<Rightarrow> (string \<times> cint \<times> mode_t \<Rightarrow> int result_t) \<Rightarrow> string \<Rightarrow> cint \<Rightarrow> mode_t
     \<Rightarrow> BxlObserver \<Rightarrow> int \<times> BxlObserver" where
  "open64 sy real_open64 path oflag md bxl =
     (let pathStr = normalize_path sy path 0;
          (event, bxl) = CreateFileOpen sy pathStr oflag bxl;
          (fd, bxl) = check_fwd_and_report sy ''open64'' event ERROR_RETURN_VALUE
                        (real_open64 (path, oflag, md)) bxl
      in ret_fd fd bxl)"

definition openat ::
  "sys \<Rightarrow> (int \<times> string \<times> cint \<times> mode_t \<Rightarrow> int result_t) \<Rightarrow> int \<Rightarrow> string \<Rightarrow> cint \<Rightarrow> mode_t
     \<Rightarrow> BxlObserver \<Rightarrow> int \<times> BxlObserver" where
  "openat sy real_openat dirfd pathname flags md bxl =
     (let pathStr = normalize_path_at sy dirfd pathname 0;
          (event, bxl) = CreateFileOpen sy pathStr flags bxl;
          (fd, bxl) = check_fwd_and_report sy ''openat'' event ERROR_RETURN_VALUE
                        (real_openat (dirfd, pathname, flags, md)) bxl
      in ret_fd fd bxl)"

text \<open>\<^verbatim>\<open>openat64\<close> forwards through \<^verbatim>\<open>check_fwd_and_report_openat\<close>, as the source does.\<close>

definition openat64 ::
  "sys \<Rightarrow> (int \<times> string \<times> cint \<times> mode_t \<Rightarrow> int result_t) \<Rightarrow> int \<Rightarrow> string \<Rightarrow> cint \<Rightarrow> mode_t
     \<Rightarrow> BxlObserver \<Rightarrow> int \<times> BxlObserver" where
  "openat64 sy real_openat dirfd pathname flags md bxl =
     (let pathStr = normalize_path_at sy dirfd pathname 0;
          (event, bxl) = CreateFileOpen sy pathStr flags bxl;
          (fd, bxl) = check_fwd_and_report sy ''openat'' event ERROR_RETURN_VALUE
                        (real_openat (dirfd, pathname, flags, md)) bxl
      in ret_fd fd bxl)"

definition creat ::
  "sys \<Rightarrow> (string \<times> cint \<times> mode_t \<Rightarrow> int result_t) \<Rightarrow> string \<Rightarrow> mode_t
     \<Rightarrow> BxlObserver \<Rightarrow> int \<times> BxlObserver" where
  "creat sy real_open pathname md bxl =
     open' sy real_open pathname (O_CREAT OR O_WRONLY OR O_TRUNC) md bxl"

subsection \<open>unlinkat\<close>

definition unlinkat ::
  "sys \<Rightarrow> (int \<times> string option \<times> cint \<Rightarrow> int result_t) \<Rightarrow> int \<Rightarrow> string option \<Rightarrow> cint
     \<Rightarrow> BxlObserver \<Rightarrow> int \<times> BxlObserver" where
  "unlinkat sy real_unlinkat dirfd path flags bxl =
     (if dirfd = AT_FDCWD \<and> path \<noteq> None \<and> path = Some []
      then (let (r, bxl) = fwd ''unlinkat'' (real_unlinkat (dirfd, path, flags)) bxl in restore r bxl)
      else
        (let oflags = (if (flags AND AT_REMOVEDIR) \<noteq> 0 then 0 else O_NOFOLLOW);
             event = RelativePathSandboxEvent ''unlinkat'' kUnlink (getpid bxl) (getppid bxl) 0
                       (case path of None \<Rightarrow> [] | Some p \<Rightarrow> p) dirfd;
             event = (if (oflags AND c_bool (O_NOFOLLOW \<noteq> 0)) \<noteq> 0
                      then SetRequiredPathResolution kResolveNoFollow event else event);
             (check, event, bxl) = CreateAccess sy event True bxl
         in check_fwd_and_report sy ''unlinkat'' event ERROR_RETURN_VALUE
              (real_unlinkat (dirfd, path, flags)) bxl))"

subsection \<open>fork, vfork and clone\<close>

definition report_child_process :: "sys \<Rightarrow> string \<Rightarrow> int \<Rightarrow> int \<Rightarrow> BxlObserver \<Rightarrow> BxlObserver" where
  "report_child_process sy syscall childPid parentPid bxl =
     (let event = CloneSandboxEvent syscall childPid parentPid (GetProgramPath bxl)
      in CreateAndReportAccess sy event False bxl)"

definition HandleForkOrCloneReporting :: "sys \<Rightarrow> string \<Rightarrow> int \<Rightarrow> BxlObserver \<Rightarrow> BxlObserver" where
  "HandleForkOrCloneReporting sy syscall forkOrCloneChildPidResult bxl =
     (if forkOrCloneChildPidResult = 0
      then (let bxl = reset_fd_table bxl
            in report_child_process sy syscall (getpid bxl) (getppid bxl) bxl)
      else report_child_process sy syscall forkOrCloneChildPidResult (getpid bxl) bxl)"

text \<open>
  The real fork returns once in the caller and, when it creates a process, once more in
  the child. The child is a copy of the caller (the FD table with it) under its own pid,
  with the caller as parent; its three logs start empty, a log being what one process has
  done. The model lists the processes in which the primitive returns, the caller first,
  each with the value it receives.
\<close>

datatype fork_outcome = ForkFails int | ForkCreates int

fun fwd_fork :: "string \<Rightarrow> fork_outcome \<Rightarrow> BxlObserver \<Rightarrow> (int result_t \<times> BxlObserver) list" where
  "fwd_fork name (ForkFails e) bxl =
     [(\<lparr>get = - 1, get_errno = e\<rparr>, bxl\<lparr>forwarded := forwarded bxl @ [Real name]\<rparr>)]"
| "fwd_fork name (ForkCreates child) bxl =
     [(\<lparr>get = child, get_errno = errno bxl\<rparr>, bxl\<lparr>forwarded := forwarded bxl @ [Real name]\<rparr>),
      (\<lparr>get = 0, get_errno = errno bxl\<rparr>,
       bxl\<lparr>getpid := child, getppid := getpid bxl, accesses := [], reports := [], forwarded := []\<rparr>)]"

definition fork :: "sys \<Rightarrow> fork_outcome \<Rightarrow> BxlObserver \<Rightarrow> (int \<times> BxlObserver) list" where
  "fork sy outcome bxl =
     map (\<lambda>(childPid, bxl).
            let bxl = HandleForkOrCloneReporting sy ''fork'' (get childPid) bxl
            in restore childPid bxl)
         (fwd_fork ''fork'' outcome bxl)"

text \<open>Observe that we explicitly call fork and not vfork.\<close>

definition vfork :: "sys \<Rightarrow> fork_outcome \<Rightarrow> BxlObserver \<Rightarrow> (int \<times> BxlObserver) list" where
  "vfork sy outcome bxl =
     map (\<lambda>(childPid, bxl).
            let bxl = HandleForkOrCloneReporting sy ''vfork'' (get childPid) bxl
            in restore childPid bxl)
         (fwd_fork ''fork'' outcome bxl)"

text \<open>
  The real \<^verbatim>\<open>clone(fn, child_stack, flags, arg, ...)\<close> of the C library starts the child
  in \<^verbatim>\<open>fn\<close>, on its own stack, and ends it when \<^verbatim>\<open>fn\<close> returns: the child never
  returns from \<^verbatim>\<open>clone\<close> into the shim. \<^verbatim>\<open>fwd_clone\<close> therefore returns in the caller
  only. \<open>started_in_fn\<close> is the child process as it enters \<^verbatim>\<open>fn\<close>: a copy of the
  caller under its own pid, its logs empty.
\<close>

fun fwd_clone :: "fork_outcome \<Rightarrow> BxlObserver \<Rightarrow> (int result_t \<times> BxlObserver) list" where
  "fwd_clone (ForkFails e) bxl =
     [(\<lparr>get = - 1, get_errno = e\<rparr>, bxl\<lparr>forwarded := forwarded bxl @ [Real ''clone'']\<rparr>)]"
| "fwd_clone (ForkCreates child) bxl =
     [(\<lparr>get = child, get_errno = errno bxl\<rparr>,
       bxl\<lparr>forwarded := forwarded bxl @ [Real ''clone'']\<rparr>)]"

definition started_in_fn :: "int \<Rightarrow> BxlObserver \<Rightarrow> BxlObserver" where
  "started_in_fn child bxl =
     bxl\<lparr>getpid := child, getppid := getpid bxl, accesses := [], reports := [], forwarded := []\<rparr>"

definition clone :: "sys \<Rightarrow> fork_outcome \<Rightarrow> cint \<Rightarrow> BxlObserver \<Rightarrow> (int \<times> BxlObserver) list" where
  "clone sy outcome flags bxl =
     map (\<lambda>(result, bxl).
            let bxl = (if \<not> ((flags AND CLONE_THREAD) \<noteq> 0)
                       then HandleForkOrCloneReporting sy ''clone'' (get result) bxl
                       else bxl)
            in restore result bxl)
         (fwd_clone outcome bxl)"

subsection \<open>rename, renameat and renameat2\<close>

text \<open>
  One pass of the loop over the enumerated directory. The loop variable is a copy of the
  entry; \<^verbatim>\<open>replace(0, old.length(), new)\<close> swaps the old prefix for the new one. The
  decision of the source event overwrites \<^verbatim>\<open>check\<close> at each pass, as in the source.
\<close>

fun renameat_loop ::
  "sys \<Rightarrow> string \<Rightarrow> string \<Rightarrow> string list \<Rightarrow> AccessCheckResult \<Rightarrow> SandboxEvent list \<Rightarrow> BxlObserver
     \<Rightarrow> AccessCheckResult \<times> SandboxEvent list \<times> BxlObserver" where
  "renameat_loop sy old_path_normalized new_path_normalized [] check events_to_report bxl =
     (check, events_to_report, bxl)"
| "renameat_loop sy old_path_normalized new_path_normalized (file_or_directory # rest)
       check events_to_report bxl =
     (let source_event = AbsolutePathSandboxEvent ''handle_renameat'' kUnlink
                           (getpid bxl) (getppid bxl) 0 file_or_directory;
          source_event = SetRequiredPathResolution kResolveNoFollow source_event;
          (check, source_event, bxl) = CreateAccess sy source_event True bxl;
          events_to_report = events_to_report @ [source_event];
          file_or_directory = new_path_normalized
                                @ drop (length old_path_normalized) file_or_directory;
          (target_event, bxl) = CreateFileOpen sy file_or_directory (O_CREAT OR O_WRONLY) bxl;
          check = Combine check (GetSourceAccessCheckResult sy target_event);
          events_to_report = events_to_report @ [target_event]
      in if should_deny check then (check, events_to_report, bxl)
         else renameat_loop sy old_path_normalized new_path_normalized rest
                check events_to_report bxl)"

definition handle_renameat ::
  "sys \<Rightarrow> int \<Rightarrow> string \<Rightarrow> int \<Rightarrow> string \<Rightarrow> SandboxEvent list \<Rightarrow> BxlObserver
     \<Rightarrow> AccessCheckResult \<times> SandboxEvent list \<times> BxlObserver" where
  "handle_renameat sy olddirfd oldpath newdirfd newpath events_to_report bxl =
     (let old_path_normalized = normalize_path_at sy olddirfd oldpath O_NOFOLLOW;
          new_path_normalized = normalize_path_at sy newdirfd newpath O_NOFOLLOW;
          md = get_mode sy old_path_normalized;
          check = Invalid sy
      in if S_ISDIR md then
           (case EnumerateDirectory sy old_path_normalized of
              Some files_and_directories \<Rightarrow>
                renameat_loop sy old_path_normalized new_path_normalized files_and_directories
                  check events_to_report bxl
            | None \<Rightarrow> (check, events_to_report, bxl))
         else
           (let source_event = AbsolutePathSandboxEvent ''handle_renameat'' kUnlink
                                 (getpid bxl) (getppid bxl) 0 old_path_normalized;
                source_event = SetRequiredPathResolution kResolveNoFollow source_event;
                (check, source_event, bxl) = CreateAccess sy source_event True bxl;
                events_to_report = events_to_report @ [source_event];
                (target_event, bxl) = CreateFileOpen sy new_path_normalized (O_CREAT OR O_WRONLY) bxl;
                check = Combine check (GetSourceAccessCheckResult sy target_event);
                events_to_report = events_to_report @ [target_event]
            in (check, events_to_report, bxl)))"

text \<open>
  \<^verbatim>\<open>accesses_to_report.back()\<close> on an empty vector is undefined behaviour, and so is
  the use of a \<^verbatim>\<open>c_str()\<close> whose string is gone: the model stops there with an error
  value.
\<close>

datatype undefined_behaviour = BackOfEmptyVector | DanglingCStr

definition renameat ::
  "sys \<Rightarrow> (int \<times> string \<times> int \<times> string \<Rightarrow> int result_t) \<Rightarrow> int \<Rightarrow> string \<Rightarrow> int \<Rightarrow> string
     \<Rightarrow> BxlObserver \<Rightarrow> undefined_behaviour + (int \<times> BxlObserver)" where
  "renameat sy real_renameat olddirfd oldpath newdirfd newpath bxl =
     (let (check, accesses_to_report, bxl) =
            handle_renameat sy olddirfd oldpath newdirfd newpath [] bxl;
          result = \<lparr>get = ERROR_RETURN_VALUE, get_errno = EPERM\<rparr>
      in if should_deny check then
           (case accesses_to_report of
              [] \<Rightarrow> Inl BackOfEmptyVector
            | _ # _ \<Rightarrow> Inr (restore result (SendReport (last accesses_to_report) bxl)))
         else
           (let (result, bxl) =
                  fwd ''renameat'' (real_renameat (olddirfd, oldpath, newdirfd, newpath)) bxl;
                bxl = foldl (\<lambda>bxl access.
                               SendReport (SetErrno (get_errno_from_result result) access) bxl)
                        bxl accesses_to_report
            in Inr (restore result bxl)))"

definition renameat2 ::
  "sys \<Rightarrow> (int \<times> string \<times> int \<times> string \<times> cint \<Rightarrow> int result_t) \<Rightarrow> int \<Rightarrow> string \<Rightarrow> int \<Rightarrow> string
     \<Rightarrow> cint \<Rightarrow> BxlObserver \<Rightarrow> undefined_behaviour + (int \<times> BxlObserver)" where
  "renameat2 sy real_renameat2 olddirfd oldpath newdirfd newpath flags bxl =
     (let (check, accesses_to_report, bxl) =
            handle_renameat sy olddirfd oldpath newdirfd newpath [] bxl;
          result = \<lparr>get = ERROR_RETURN_VALUE, get_errno = EPERM\<rparr>
      in if should_deny check then
           (case accesses_to_report of
              [] \<Rightarrow> Inl BackOfEmptyVector
            | _ # _ \<Rightarrow> Inr (restore result (SendReport (last accesses_to_report) bxl)))
         else
           (let (result, bxl) =
                  fwd ''renameat2''
                    (real_renameat2 (olddirfd, oldpath, newdirfd, newpath, flags)) bxl;
                bxl = foldl (\<lambda>bxl access.
                               SendReport (SetErrno (get_errno_from_result result) access) bxl)
                        bxl accesses_to_report
            in Inr (restore result bxl)))"

definition rename ::
  "sys \<Rightarrow> (int \<times> string \<times> int \<times> string \<Rightarrow> int result_t) \<Rightarrow> string \<Rightarrow> string
     \<Rightarrow> BxlObserver \<Rightarrow> undefined_behaviour + (int \<times> BxlObserver)" where
  "rename sy real_renameat oldpath newpath bxl =
     renameat sy real_renameat AT_FDCWD oldpath AT_FDCWD newpath bxl"

text \<open>
  What one pass of the loop decides and records for a descendant \<open>f\<close> of the source
  directory: the decision on the pair and the two events. They depend on the process
  through its pid and ppid only.
\<close>

definition descendant_check :: "sys \<Rightarrow> string \<Rightarrow> string \<Rightarrow> BxlObserver \<Rightarrow> string \<Rightarrow> AccessCheckResult" where
  "descendant_check sy old new bxl f =
     fst (renameat_loop sy old new [f] (Invalid sy) [] bxl)"

definition descendant_events :: "sys \<Rightarrow> string \<Rightarrow> string \<Rightarrow> BxlObserver \<Rightarrow> string \<Rightarrow> SandboxEvent list" where
  "descendant_events sy old new bxl f =
     fst (snd (renameat_loop sy old new [f] (Invalid sy) [] bxl))"


text \<open>The descendants a loop looks at when it stops at the first denied one.\<close>

fun examined :: "('a \<Rightarrow> bool) \<Rightarrow> 'a list \<Rightarrow> 'a list" where
  "examined denied [] = []"
| "examined denied (f # fs) = (if denied f then [f] else f # examined denied fs)"

subsection \<open>The exec family\<close>

text \<open>
  Modelled from the spec: the environment helpers are outside detours.cpp. An
  environment is a list of (name, value) entries. Two variables are recognized, the
  preload-injection variable and the FAM-path variable. \<^verbatim>\<open>removeEnvs\<close> strips both;
  \<^verbatim>\<open>ensureEnvs\<close> ensures both are present, injecting the observer's value where one is
  missing; \<^verbatim>\<open>RemoveLDPreloadFromEnv\<close> strips the preload entry.
\<close>

definition LD_PRELOAD :: string where "LD_PRELOAD = ''LD_PRELOAD''"
definition BXL_FAM_PATH :: string where "BXL_FAM_PATH = ''__BUILDXL_FAM_PATH''"

definition has_env :: "string \<Rightarrow> env \<Rightarrow> bool" where
  "has_env name envp = (name \<in> set (map fst envp))"

definition ensure_env :: "string \<Rightarrow> string \<Rightarrow> env \<Rightarrow> env" where
  "ensure_env name val envp = (if has_env name envp then envp else envp @ [(name, val)])"

definition removeEnvs :: "env \<Rightarrow> env" where
  "removeEnvs envp = filter (\<lambda>entry. fst entry \<noteq> LD_PRELOAD \<and> fst entry \<noteq> BXL_FAM_PATH) envp"

definition ensureEnvs :: "BxlObserver \<Rightarrow> env \<Rightarrow> env" where
  "ensureEnvs bxl envp =
     ensure_env BXL_FAM_PATH (getFamPath bxl) (ensure_env LD_PRELOAD (GetDetoursLibPath bxl) envp)"

definition RemoveLDPreloadFromEnv :: "env \<Rightarrow> env" where
  "RemoveLDPreloadFromEnv envp = filter (\<lambda>entry. fst entry \<noteq> LD_PRELOAD) envp"

text \<open>
  Modelled from the spec: \<^verbatim>\<open>fd_to_path\<close> returns the cached path of a descriptor, or
  resolves it through the kernel and caches the result; a descriptor the kernel cannot
  resolve yields the empty path and no entry. \<^verbatim>\<open>GetProcessCommandLine\<close> joins the
  arguments.
\<close>

definition fd_to_path :: "sys \<Rightarrow> int \<Rightarrow> BxlObserver \<Rightarrow> string \<times> BxlObserver" where
  "fd_to_path sy fd bxl =
     (case fd_table bxl fd of
        Some path \<Rightarrow> (path, bxl)
      | None \<Rightarrow>
          (case proc_self_fd sy fd of
             Some path \<Rightarrow> (path, bxl\<lparr>fd_table := (fd_table bxl)(fd \<mapsto> path)\<rparr>)
           | None \<Rightarrow> ([], bxl)))"

definition GetProcessCommandLine :: "string list \<Rightarrow> string" where
  "GetProcessCommandLine argv = concat (map (\<lambda>a. a @ '' '') argv)"

text \<open>
  A real exec returns only when it fails: its result is \<open>None\<close> when the image was
  replaced. An interposed exec then returns nothing either, and the state is the one the
  process had when the real exec was invoked.
\<close>

definition fwd_exec ::
  "string \<Rightarrow> string \<Rightarrow> env \<Rightarrow> int result_t option \<Rightarrow> BxlObserver
     \<Rightarrow> int result_t option \<times> BxlObserver" where
  "fwd_exec name path envp r bxl = (r, bxl\<lparr>forwarded := forwarded bxl @ [RealExec name path envp]\<rparr>)"

text \<open>This will only execute if exec failed.\<close>

definition report_exec_failure ::
  "sys \<Rightarrow> string \<Rightarrow> string \<Rightarrow> string list \<Rightarrow> mode_t option
     \<Rightarrow> int result_t option \<times> BxlObserver \<Rightarrow> int option \<times> BxlObserver" where
  "report_exec_failure sy syscall path argv md returned =
     (case returned of
        (None, bxl) \<Rightarrow> (None, bxl)
      | (Some result, bxl) \<Rightarrow>
          (let event = ExecSandboxEvent syscall (getpid bxl) (getppid bxl) path
                         (GetProcessCommandLine argv);
               event = SetErrno (get_errno result) event;
               event = (case md of None \<Rightarrow> event | Some m \<Rightarrow> SetMode m event);
               bxl = CreateAndReportAccess sy event True bxl;
               (r, bxl) = restore result bxl
           in (Some r, bxl)))"

definition handle_exec_with_ptrace ::
  "sys \<Rightarrow> string \<Rightarrow> string list \<Rightarrow> env \<Rightarrow> int result_t option \<Rightarrow> BxlObserver
     \<Rightarrow> int option \<times> BxlObserver" where
  "handle_exec_with_ptrace sy file argv envp r bxl =
     (let bxl = reset_fd_table bxl;
          envp = RemoveLDPreloadFromEnv envp;
          bxl = bxl\<lparr>forwarded := forwarded bxl @ [PTraceExec file envp (getFamPath bxl)]\<rparr>
      in case r of
           None \<Rightarrow> (None, bxl)
         | Some result \<Rightarrow>
             (let bxl = bxl\<lparr>errno := get_errno result\<rparr>;
                  event = ExecSandboxEvent ''execve'' (getpid bxl) (getppid bxl) file
                            (GetProcessCommandLine argv);
                  event = SetErrno (errno bxl) event;
                  bxl = CreateAndReportAccess sy event True bxl
              in (Some (get result), bxl)))"

text \<open>
  The three-way choice every variant repeats: a breakaway target gets the stripped
  environment, a target that needs the tracer is handed to the ptrace sandbox, any other
  target gets the ensured environment. \<open>prim\<close> is the real primitive, \<open>syscall\<close> the
  name reported on failure.
\<close>

definition exec_choice ::
  "sys \<Rightarrow> string \<Rightarrow> string \<Rightarrow> string \<Rightarrow> string list \<Rightarrow> env \<Rightarrow> mode_t option
     \<Rightarrow> int result_t option \<Rightarrow> BxlObserver \<Rightarrow> int option \<times> BxlObserver" where
  "exec_choice sy syscall prim file argv envp md r bxl =
     (if is_breakaway sy file
      then report_exec_failure sy syscall file argv md (fwd_exec prim file (removeEnvs envp) r bxl)
      else if requires_ptrace sy file
      then handle_exec_with_ptrace sy file argv (ensureEnvs bxl envp) r bxl
      else report_exec_failure sy syscall file argv md
             (fwd_exec prim file (ensureEnvs bxl envp) r bxl))"

definition execve ::
  "sys \<Rightarrow> int result_t option \<Rightarrow> string \<Rightarrow> string list \<Rightarrow> env \<Rightarrow> BxlObserver
     \<Rightarrow> int option \<times> BxlObserver" where
  "execve sy r file argv envp bxl = exec_choice sy ''execve'' ''execve'' file argv envp None r bxl"

definition execv ::
  "sys \<Rightarrow> int result_t option \<Rightarrow> string \<Rightarrow> string list \<Rightarrow> BxlObserver
     \<Rightarrow> int option \<times> BxlObserver" where
  "execv sy r file argv bxl =
     exec_choice sy ''execv'' ''execve'' file argv (environ bxl) None r bxl"

text \<open>
  \<^verbatim>\<open>fexecve\<close> takes a descriptor. The overloads of \<^verbatim>\<open>SendBreakawayReportIfNeeded\<close> and
  \<^verbatim>\<open>check_and_report_process_requires_ptrace\<close> for a descriptor are outside detours.cpp:
  their answers are taken to be the answers for the path behind the descriptor. The
  overload of \<^verbatim>\<open>handle_exec_with_ptrace\<close> for a descriptor keeps
  \<^verbatim>\<open>fd_to_path(fd).c_str()\<close> in a variable and hands it to the overload for a path,
  which resets the FD table and then reads it: by then the string it pointed into is
  gone.
\<close>

definition fwd_fexecve ::
  "int \<Rightarrow> env \<Rightarrow> int result_t option \<Rightarrow> BxlObserver \<Rightarrow> int result_t option \<times> BxlObserver" where
  "fwd_fexecve fd envp r bxl =
     (r, bxl\<lparr>forwarded := forwarded bxl @ [RealExecFd ''fexecve'' fd envp]\<rparr>)"

definition handle_exec_with_ptrace_fd ::
  "sys \<Rightarrow> int \<Rightarrow> string list \<Rightarrow> env \<Rightarrow> int result_t option \<Rightarrow> BxlObserver
     \<Rightarrow> undefined_behaviour + (int option \<times> BxlObserver)" where
  "handle_exec_with_ptrace_fd sy fd argv envp r bxl =
     (let (resolvedPath, bxl) = fd_to_path sy fd bxl in Inl DanglingCStr)"

definition fexecve ::
  "sys \<Rightarrow> int result_t option \<Rightarrow> int \<Rightarrow> string list \<Rightarrow> env \<Rightarrow> BxlObserver
     \<Rightarrow> undefined_behaviour + (int option \<times> BxlObserver)" where
  "fexecve sy r fd argv envp bxl =
     (let after_exec =
            (\<lambda>returned.
               case returned of
                 (None, bxl) \<Rightarrow> (None, bxl)
               | (Some result, bxl) \<Rightarrow>
                   (let (path, bxl) = fd_to_path sy fd bxl;
                        event = ExecSandboxEvent ''fexecve'' (getpid bxl) (getppid bxl) path
                                  (GetProcessCommandLine argv);
                        event = SetErrno (get_errno result) event;
                        bxl = CreateAndReportAccess sy event True bxl;
                        (ret, bxl) = restore result bxl
                    in (Some ret, bxl)))
      in if is_breakaway sy (fst (fd_to_path sy fd bxl))
         then Inr (after_exec (fwd_fexecve fd (removeEnvs envp) r bxl))
         else if requires_ptrace sy (fst (fd_to_path sy fd bxl))
         then handle_exec_with_ptrace_fd sy fd argv (ensureEnvs bxl envp) r bxl
         else Inr (after_exec (fwd_fexecve fd (ensureEnvs bxl envp) r bxl)))"

definition execvp ::
  "sys \<Rightarrow> int result_t option \<Rightarrow> string \<Rightarrow> string list \<Rightarrow> BxlObserver
     \<Rightarrow> int option \<times> BxlObserver" where
  "execvp sy r file argv bxl =
     (case resolve_filename_with_env sy file of
        Some (md, pathname) \<Rightarrow>
          exec_choice sy ''execvp'' ''execve'' pathname argv (environ bxl) (Some md) r bxl
      | None \<Rightarrow>
          report_exec_failure sy ''execvp'' file argv (Some 0)
            (fwd_exec ''execvpe'' file (ensureEnvs bxl (environ bxl)) r bxl))"

definition execvpe ::
  "sys \<Rightarrow> int result_t option \<Rightarrow> string \<Rightarrow> string list \<Rightarrow> env \<Rightarrow> BxlObserver
     \<Rightarrow> int option \<times> BxlObserver" where
  "execvpe sy r file argv envp bxl =
     (case resolve_filename_with_env sy file of
        Some (md, pathname) \<Rightarrow>
          exec_choice sy ''execvpe'' ''execve'' pathname argv envp (Some md) r bxl
      | None \<Rightarrow>
          report_exec_failure sy ''execvpe'' file argv (Some 0)
            (fwd_exec ''execve'' file (ensureEnvs bxl envp) r bxl))"

text \<open>
  The variadic variants first count their arguments; \<^verbatim>\<open>get_variadic_argc\<close> answers -1
  when it gives up, and the call returns -1 without an exec.
\<close>

definition execl ::
  "sys \<Rightarrow> int result_t option \<Rightarrow> int \<Rightarrow> string \<Rightarrow> string list \<Rightarrow> BxlObserver
     \<Rightarrow> int option \<times> BxlObserver" where
  "execl sy r argc pathname argv bxl =
     (if argc = - 1 then (Some (- 1), bxl)
      else exec_choice sy ''execl'' ''execve'' pathname argv (environ bxl) None r bxl)"

definition execle ::
  "sys \<Rightarrow> int result_t option \<Rightarrow> int \<Rightarrow> string \<Rightarrow> string list \<Rightarrow> env \<Rightarrow> BxlObserver
     \<Rightarrow> int option \<times> BxlObserver" where
  "execle sy r argc pathname argv envp bxl =
     (if argc = - 1 then (Some (- 1), bxl)
      else exec_choice sy ''execle'' ''execve'' pathname argv envp None r bxl)"

text \<open>
  When the search of \<^verbatim>\<open>execlp\<close> finds nothing the source calls \<^verbatim>\<open>fwd_execvp(file, argv)\<close>,
  which takes no environment: the real execvp runs on the process environment as it is.
\<close>

definition execlp ::
  "sys \<Rightarrow> int result_t option \<Rightarrow> int \<Rightarrow> string \<Rightarrow> string list \<Rightarrow> BxlObserver
     \<Rightarrow> int option \<times> BxlObserver" where
  "execlp sy r argc file argv bxl =
     (if argc = - 1 then (Some (- 1), bxl)
      else
        (case resolve_filename_with_env sy file of
           Some (md, pathname) \<Rightarrow>
             exec_choice sy ''execlp'' ''execve'' pathname argv (environ bxl) (Some md) r bxl
         | None \<Rightarrow>
             report_exec_failure sy ''execlp'' file argv (Some 0)
               (fwd_exec ''execvp'' file (environ bxl) r bxl)))"

text \<open>
  The calls of the family, the target each resolves (none when the variadic count gives
  up or the search finds nothing), the environment the caller means (its own for the
  variants that take none), and the environments handed to a real exec or to the tracer
  between two states.
\<close>

datatype exec_call =
  Execv string "string list"
  | Execve string "string list" env
  | Execvp string "string list"
  | Execvpe string "string list" env
  | Execl int string "string list"
  | Execlp int string "string list"
  | Execle int string "string list" env
  | Fexecve int "string list" env

fun interposed_exec ::
  "sys \<Rightarrow> int result_t option \<Rightarrow> exec_call \<Rightarrow> BxlObserver
     \<Rightarrow> undefined_behaviour + (int option \<times> BxlObserver)" where
  "interposed_exec sy r (Execv file argv) bxl = Inr (execv sy r file argv bxl)"
| "interposed_exec sy r (Execve file argv envp) bxl = Inr (execve sy r file argv envp bxl)"
| "interposed_exec sy r (Execvp file argv) bxl = Inr (execvp sy r file argv bxl)"
| "interposed_exec sy r (Execvpe file argv envp) bxl = Inr (execvpe sy r file argv envp bxl)"
| "interposed_exec sy r (Execl argc file argv) bxl = Inr (execl sy r argc file argv bxl)"
| "interposed_exec sy r (Execlp argc file argv) bxl = Inr (execlp sy r argc file argv bxl)"
| "interposed_exec sy r (Execle argc file argv envp) bxl =
     Inr (execle sy r argc file argv envp bxl)"
| "interposed_exec sy r (Fexecve fd argv envp) bxl = fexecve sy r fd argv envp bxl"

fun exec_target :: "sys \<Rightarrow> BxlObserver \<Rightarrow> exec_call \<Rightarrow> string option" where
  "exec_target sy bxl (Execv file argv) = Some file"
| "exec_target sy bxl (Execve file argv envp) = Some file"
| "exec_target sy bxl (Execvp file argv) = map_option snd (resolve_filename_with_env sy file)"
| "exec_target sy bxl (Execvpe file argv envp) = map_option snd (resolve_filename_with_env sy file)"
| "exec_target sy bxl (Execl argc file argv) = (if argc = - 1 then None else Some file)"
| "exec_target sy bxl (Execlp argc file argv) =
     (if argc = - 1 then None else map_option snd (resolve_filename_with_env sy file))"
| "exec_target sy bxl (Execle argc file argv envp) = (if argc = - 1 then None else Some file)"
| "exec_target sy bxl (Fexecve fd argv envp) = Some (fst (fd_to_path sy fd bxl))"

fun caller_env :: "BxlObserver \<Rightarrow> exec_call \<Rightarrow> env" where
  "caller_env bxl (Execv file argv) = environ bxl"
| "caller_env bxl (Execve file argv envp) = envp"
| "caller_env bxl (Execvp file argv) = environ bxl"
| "caller_env bxl (Execvpe file argv envp) = envp"
| "caller_env bxl (Execl argc file argv) = environ bxl"
| "caller_env bxl (Execlp argc file argv) = environ bxl"
| "caller_env bxl (Execle argc file argv envp) = envp"
| "caller_env bxl (Fexecve fd argv envp) = envp"

fun env_of_call :: "real_call \<Rightarrow> env option" where
  "env_of_call (Real name) = None"
| "env_of_call (RealExec name path envp) = Some envp"
| "env_of_call (RealExecFd name fd envp) = Some envp"
| "env_of_call (PTraceExec path envp fam) = Some envp"

definition passed_envs :: "BxlObserver \<Rightarrow> BxlObserver \<Rightarrow> env list" where
  "passed_envs before after =
     List.map_filter env_of_call (drop (length (forwarded before)) (forwarded after))"

text \<open>
  The environments an interposed exec has passed on when it is done; nothing is known
  of a call that ran into undefined behaviour.
\<close>

definition exec_passes ::
  "BxlObserver \<Rightarrow> undefined_behaviour + (int option \<times> BxlObserver) \<Rightarrow> env list option" where
  "exec_passes before outcome =
     (case outcome of
        Inl ub \<Rightarrow> None
      | Inr (ret, after) \<Rightarrow> Some (passed_envs before after))"

fun is_fexecve :: "exec_call \<Rightarrow> bool" where
  "is_fexecve (Fexecve fd argv envp) = True"
| "is_fexecve call = False"

subsection \<open>Closing, duplicating and opening descriptors\<close>

text \<open>
  A \<^verbatim>\<open>DIR *\<close> is known to the shim through \<^verbatim>\<open>dirfd\<close> only. \<^verbatim>\<open>real_X\<close> invokes the
  real primitive and returns its value; the primitive leaves its errno behind.
\<close>

record DIR =
  dirfd :: int

definition real :: "string \<Rightarrow> int result_t \<Rightarrow> BxlObserver \<Rightarrow> int \<times> BxlObserver" where
  "real name r bxl =
     (get r, bxl\<lparr>forwarded := forwarded bxl @ [Real name], errno := get_errno r\<rparr>)"

definition close :: "(int \<Rightarrow> int result_t) \<Rightarrow> int \<Rightarrow> BxlObserver \<Rightarrow> int \<times> BxlObserver" where
  "close real_close fd bxl =
     (let bxl = reset_fd_table_entry fd bxl;
          (r, bxl) = fwd ''close'' (real_close fd) bxl
      in restore r bxl)"

definition fclose :: "(FILE \<Rightarrow> int result_t) \<Rightarrow> FILE \<Rightarrow> BxlObserver \<Rightarrow> int \<times> BxlObserver" where
  "fclose real_fclose f bxl =
     (let bxl = reset_fd_table_entry (fileno f) bxl;
          (r, bxl) = fwd ''fclose'' (real_fclose f) bxl
      in restore r bxl)"

definition closedir :: "(DIR \<Rightarrow> int result_t) \<Rightarrow> DIR \<Rightarrow> BxlObserver \<Rightarrow> int \<times> BxlObserver" where
  "closedir real_closedir dirp bxl =
     (let bxl = reset_fd_table_entry (dirfd dirp) bxl;
          (r, bxl) = fwd ''closedir'' (real_closedir dirp) bxl
      in restore r bxl)"

definition dup :: "(int \<Rightarrow> int result_t) \<Rightarrow> int \<Rightarrow> BxlObserver \<Rightarrow> int \<times> BxlObserver" where
  "dup real_dup fd bxl =
     (let (newfd, bxl) = real ''dup'' (real_dup fd) bxl in ret_fd newfd bxl)"

text \<open>If the file descriptor newfd was previously open, it is closed before being
  reused; the close is performed silently, so we should reset the fd table.\<close>

definition dup2 :: "(int \<times> int \<Rightarrow> int result_t) \<Rightarrow> int \<Rightarrow> int \<Rightarrow> BxlObserver \<Rightarrow> int \<times> BxlObserver" where
  "dup2 real_dup2 oldfd newfd bxl =
     (let bxl = reset_fd_table_entry newfd bxl
      in real ''dup2'' (real_dup2 (oldfd, newfd)) bxl)"

definition dup3 ::
  "(int \<times> int \<times> cint \<Rightarrow> int result_t) \<Rightarrow> int \<Rightarrow> int \<Rightarrow> cint \<Rightarrow> BxlObserver \<Rightarrow> int \<times> BxlObserver" where
  "dup3 real_dup3 oldfd newfd flags bxl =
     (let bxl = reset_fd_table_entry newfd bxl
      in real ''dup3'' (real_dup3 (oldfd, newfd, flags)) bxl)"

definition get_event_from_open_mode :: "string \<Rightarrow> EventType" where
  "get_event_from_open_mode md =
     (if list_ex (\<lambda>c. c = CHR ''a'' \<or> c = CHR ''w'' \<or> c = CHR ''+'') md
      then kGenericWrite else kOpen)"

definition fopen ::
  "sys \<Rightarrow> (string \<times> string \<Rightarrow> FILE option result_t) \<Rightarrow> string \<Rightarrow> string \<Rightarrow> BxlObserver
     \<Rightarrow> FILE option \<times> BxlObserver" where
  "fopen sy real_fopen pathname md bxl =
     (let event = AbsolutePathSandboxEvent ''fopen'' (get_event_from_open_mode md)
                    (getpid bxl) (getppid bxl) 0 pathname;
          (check, event, bxl) = CreateAccess sy event True bxl;
          (f, bxl) = check_fwd_and_report sy ''fopen'' event None (real_fopen (pathname, md)) bxl
      in case f of
           Some stream \<Rightarrow> (f, reset_fd_table_entry (fileno stream) bxl)
         | None \<Rightarrow> (f, bxl))"

definition fopen64 ::
  "sys \<Rightarrow> (string \<times> string \<Rightarrow> FILE option result_t) \<Rightarrow> string \<Rightarrow> string \<Rightarrow> BxlObserver
     \<Rightarrow> FILE option \<times> BxlObserver" where
  "fopen64 sy real_fopen64 pathname md bxl =
     (let event = AbsolutePathSandboxEvent ''fopen64'' (get_event_from_open_mode md)
                    (getpid bxl) (getppid bxl) 0 pathname;
          (check, event, bxl) = CreateAccess sy event True bxl;
          (f, bxl) = check_fwd_and_report sy ''fopen64'' event None (real_fopen64 (pathname, md)) bxl
      in case f of
           Some stream \<Rightarrow> (f, reset_fd_table_entry (fileno stream) bxl)
         | None \<Rightarrow> (f, bxl))"

definition freopen ::
  "sys \<Rightarrow> (string \<times> string \<times> FILE \<Rightarrow> FILE option result_t) \<Rightarrow> string \<Rightarrow> string \<Rightarrow> FILE
     \<Rightarrow> BxlObserver \<Rightarrow> FILE option \<times> BxlObserver" where
  "freopen sy real_freopen pathname md stream bxl =
     (let event = AbsolutePathSandboxEvent ''freopen'' (get_event_from_open_mode md)
                    (getpid bxl) (getppid bxl) 0 pathname;
          (check, event, bxl) = CreateAccess sy event True bxl;
          (f, bxl) = check_fwd_and_report sy ''freopen'' event None
                       (real_freopen (pathname, md, stream)) bxl
      in case f of
           Some stream' \<Rightarrow> (f, reset_fd_table_entry (fileno stream') bxl)
         | None \<Rightarrow> (f, bxl))"

definition freopen64 ::
  "sys \<Rightarrow> (string \<times> string \<times> FILE \<Rightarrow> FILE option result_t) \<Rightarrow> string \<Rightarrow> string \<Rightarrow> FILE
     \<Rightarrow> BxlObserver \<Rightarrow> FILE option \<times> BxlObserver" where
  "freopen64 sy real_freopen64 pathname md stream bxl =
     (let event = AbsolutePathSandboxEvent ''freopen64'' (get_event_from_open_mode md)
                    (getpid bxl) (getppid bxl) 0 pathname;
          (check, event, bxl) = CreateAccess sy event True bxl;
          (f, bxl) = check_fwd_and_report sy ''freopen64'' event None
                       (real_freopen64 (pathname, md, stream)) bxl
      in case f of
           Some stream' \<Rightarrow> (f, reset_fd_table_entry (fileno stream') bxl)
         | None \<Rightarrow> (f, bxl))"

subsection \<open>The descriptors of the kernel\<close>

text \<open>
  To say that a cached path is stale the model needs the truth: the open descriptors of
  the process, each with the path behind it. The real primitives act on them as POSIX
  and the C standard say. \<open>close\<close> closes an open descriptor; \<open>dup\<close> and \<open>open\<close> bind a
  descriptor that was free, the kernel's choice being a parameter (a choice that is not
  free, or negative, stands for a failure); \<open>dup2\<close> rebinds the target; \<open>freopen\<close>
  closes the file of the stream whether or not the new open succeeds, and on success the
  stream keeps its descriptor, bound to the new file.
\<close>

type_synonym descriptors = "int \<rightharpoonup> string"

definition EBADF :: int where "EBADF = 9"

definition kernel_close :: "descriptors \<Rightarrow> int \<Rightarrow> int result_t \<times> descriptors" where
  "kernel_close k fd =
     (if k fd \<noteq> None then (\<lparr>get = 0, get_errno = 0\<rparr>, k(fd := None))
      else (\<lparr>get = - 1, get_errno = EBADF\<rparr>, k))"

definition kernel_dup :: "descriptors \<Rightarrow> int \<Rightarrow> int \<Rightarrow> int result_t \<times> descriptors" where
  "kernel_dup k fd newfd =
     (if k fd \<noteq> None \<and> k newfd = None \<and> 0 \<le> newfd
      then (\<lparr>get = newfd, get_errno = 0\<rparr>, k(newfd := k fd))
      else (\<lparr>get = - 1, get_errno = EBADF\<rparr>, k))"

definition kernel_dup2 :: "descriptors \<Rightarrow> int \<Rightarrow> int \<Rightarrow> int result_t \<times> descriptors" where
  "kernel_dup2 k oldfd newfd =
     (if k oldfd \<noteq> None \<and> 0 \<le> newfd
      then (\<lparr>get = newfd, get_errno = 0\<rparr>, k(newfd := k oldfd))
      else (\<lparr>get = - 1, get_errno = EBADF\<rparr>, k))"

definition kernel_open :: "descriptors \<Rightarrow> string \<Rightarrow> int \<Rightarrow> int result_t \<times> descriptors" where
  "kernel_open k path newfd =
     (if k newfd = None \<and> 0 \<le> newfd
      then (\<lparr>get = newfd, get_errno = 0\<rparr>, k(newfd \<mapsto> path))
      else (\<lparr>get = - 1, get_errno = ENOENT\<rparr>, k))"

definition kernel_freopen ::
  "descriptors \<Rightarrow> string \<Rightarrow> FILE \<Rightarrow> bool \<Rightarrow> FILE option result_t \<times> descriptors" where
  "kernel_freopen k path stream succeeds =
     (if succeeds \<and> 0 \<le> fileno stream
      then (\<lparr>get = Some stream, get_errno = 0\<rparr>, k(fileno stream \<mapsto> path))
      else (\<lparr>get = None, get_errno = ENOENT\<rparr>, k(fileno stream := None)))"

definition on_kernel :: "sys \<Rightarrow> descriptors \<Rightarrow> sys" where
  "on_kernel sy k = sy\<lparr>proc_self_fd := k\<rparr>"

text \<open>
  The calls on descriptors a process makes through the shim, and one step of the
  process with its kernel: the real primitive's answer is computed from the descriptors
  and consumed only when the shim forwards.
\<close>

datatype fd_call =
  Close int
  | Fclose FILE
  | Closedir DIR
  | Dup int int
  | Dup2 int int
  | Dup3 int int cint
  | Open string cint int
  | Fopen string string int
  | Freopen string string FILE bool
  | FdToPath int

fun fd_step :: "sys \<Rightarrow> fd_call \<Rightarrow> descriptors \<times> BxlObserver \<Rightarrow> descriptors \<times> BxlObserver" where
  "fd_step sy (Close fd) (k, bxl) =
     (snd (kernel_close k fd), snd (close (\<lambda>fd. fst (kernel_close k fd)) fd bxl))"
| "fd_step sy (Fclose f) (k, bxl) =
     (snd (kernel_close k (fileno f)),
      snd (fclose (\<lambda>f. fst (kernel_close k (fileno f))) f bxl))"
| "fd_step sy (Closedir d) (k, bxl) =
     (snd (kernel_close k (dirfd d)),
      snd (closedir (\<lambda>d. fst (kernel_close k (dirfd d))) d bxl))"
| "fd_step sy (Dup fd newfd) (k, bxl) =
     (snd (kernel_dup k fd newfd), snd (dup (\<lambda>fd. fst (kernel_dup k fd newfd)) fd bxl))"
| "fd_step sy (Dup2 oldfd newfd) (k, bxl) =
     (snd (kernel_dup2 k oldfd newfd),
      snd (dup2 (\<lambda>(oldfd, newfd). fst (kernel_dup2 k oldfd newfd)) oldfd newfd bxl))"
| "fd_step sy (Dup3 oldfd newfd flags) (k, bxl) =
     (snd (kernel_dup2 k oldfd newfd),
      snd (dup3 (\<lambda>(oldfd, newfd, flags). fst (kernel_dup2 k oldfd newfd)) oldfd newfd flags bxl))"
| "fd_step sy (Open path oflag newfd) (k, bxl) =
     (let after = open' (on_kernel sy k) (\<lambda>(path, oflag, md). fst (kernel_open k path newfd))
                    path oflag 0 bxl
      in (if Real ''open'' \<in> set (drop (length (forwarded bxl)) (forwarded (snd after)))
          then snd (kernel_open k path newfd) else k,
          snd after))"
| "fd_step sy (Fopen path md newfd) (k, bxl) =
     (let after = fopen (on_kernel sy k)
                    (\<lambda>(path, md). \<lparr>get = (if get (fst (kernel_open k path newfd)) = - 1 then None
                                             else Some \<lparr>fileno = newfd\<rparr>),
                                     get_errno = get_errno (fst (kernel_open k path newfd))\<rparr>)
                    path md bxl
      in (if Real ''fopen'' \<in> set (drop (length (forwarded bxl)) (forwarded (snd after)))
          then snd (kernel_open k path newfd) else k,
          snd after))"
| "fd_step sy (Freopen path md stream succeeds) (k, bxl) =
     (let after = freopen (on_kernel sy k)
                    (\<lambda>(path, md, stream). fst (kernel_freopen k path stream succeeds))
                    path md stream bxl
      in (if Real ''freopen'' \<in> set (drop (length (forwarded bxl)) (forwarded (snd after)))
          then snd (kernel_freopen k path stream succeeds) else k,
          snd after))"
| "fd_step sy (FdToPath fd) (k, bxl) = (k, snd (fd_to_path (on_kernel sy k) fd bxl))"

definition fd_run :: "sys \<Rightarrow> fd_call list \<Rightarrow> descriptors \<times> BxlObserver \<Rightarrow> descriptors \<times> BxlObserver" where
  "fd_run sy calls w = foldl (\<lambda>w call. fd_step sy call w) w calls"

text \<open>
  The FD table is coherent when every cached path is the path behind the descriptor;
  a descriptor is stale when the table holds a path for it that the kernel does not.
\<close>

definition coherent :: "descriptors \<times> BxlObserver \<Rightarrow> bool" where
  "coherent w = (\<forall>fd path. fd_table (snd w) fd = Some path \<longrightarrow> fst w fd = Some path)"

definition stale :: "descriptors \<times> BxlObserver \<Rightarrow> int \<Rightarrow> bool" where
  "stale w fd = (fd_table (snd w) fd \<noteq> None \<and> fd_table (snd w) fd \<noteq> fst w fd)"

definition failed_freopen :: "fd_call \<Rightarrow> bool" where
  "failed_freopen call =
     (case call of
        Freopen path md stream succeeds \<Rightarrow> \<not> (succeeds \<and> 0 \<le> fileno stream)
      | _ \<Rightarrow> False)"

subsection \<open>realpath\<close>

text \<open>
  Modelled from the spec: \<^verbatim>\<open>report_intermediate_symlinks\<close> is outside detours.cpp. The
  spec has it walk the path and emit one readlink event per component that is actually
  a symlink, and never one for a component that is not. The components of a path are
  named by the prefixes that end at them, the whole path being the last (the source
  expects a symlinked full path to be reported by the same walk); \<^verbatim>\<open>is_symlink\<close> is
  the file system's answer for such a prefix. The name the events carry is not given to the helper and is not
  decided by the spec.
\<close>

fun prefixes_from :: "string \<Rightarrow> string \<Rightarrow> string list" where
  "prefixes_from seen [] = (if seen \<noteq> [] \<and> last seen \<noteq> CHR ''/'' then [seen] else [])"
| "prefixes_from seen (c # cs) =
     (if c = CHR ''/'' \<and> seen \<noteq> [] \<and> last seen \<noteq> CHR ''/''
      then seen # prefixes_from (seen @ [c]) cs
      else prefixes_from (seen @ [c]) cs)"

definition path_prefixes :: "string \<Rightarrow> string list" where
  "path_prefixes path = prefixes_from [] path"

fun report_symlinks :: "sys \<Rightarrow> string list \<Rightarrow> int \<Rightarrow> int \<Rightarrow> BxlObserver \<Rightarrow> BxlObserver" where
  "report_symlinks sy [] p pp bxl = bxl"
| "report_symlinks sy (component # rest) p pp bxl =
     (if is_symlink sy component
      then (let event = AbsolutePathSandboxEvent ''readlink'' kReadLink p pp 0 component;
                event = SetRequiredPathResolution kResolveNoFollow event;
                bxl = CreateAndReportAccess sy event True bxl
            in report_symlinks sy rest p pp bxl)
      else report_symlinks sy rest p pp bxl)"

definition report_intermediate_symlinks :: "sys \<Rightarrow> string \<Rightarrow> int \<Rightarrow> int \<Rightarrow> BxlObserver \<Rightarrow> BxlObserver" where
  "report_intermediate_symlinks sy path p pp bxl = report_symlinks sy (path_prefixes path) p pp bxl"

text \<open>
  \<^verbatim>\<open>realpath\<close>: a null \<^verbatim>\<open>path\<close> or a null result is \<open>None\<close>; \<^verbatim>\<open>strcmp(path, result) != 0\<close>
  is inequality of the strings.
\<close>

definition realpath ::
  "sys \<Rightarrow> (string option \<times> 'b \<Rightarrow> string option result_t) \<Rightarrow> string option \<Rightarrow> 'b \<Rightarrow> BxlObserver
     \<Rightarrow> string option \<times> BxlObserver" where
  "realpath sy real_realpath path resolved_path bxl =
     (let (r, bxl) = fwd ''realpath'' (real_realpath (path, resolved_path)) bxl;
          (result, bxl) = restore r bxl
      in case path of
           None \<Rightarrow> (result, bxl)
         | Some path \<Rightarrow>
             (let event = AbsolutePathSandboxEvent ''realpath'' kGenericProbe
                            (getpid bxl) (getppid bxl) 0 path;
                  event = SetRequiredPathResolution kResolveNoFollow event;
                  bxl = CreateAndReportAccess sy event True bxl
              in case result of
                   None \<Rightarrow>
                     (result, report_intermediate_symlinks sy path (getpid bxl) (getppid bxl) bxl)
                 | Some resolved \<Rightarrow>
                     if path \<noteq> resolved
                     then (let bxl = report_intermediate_symlinks sy path
                                       (getpid bxl) (getppid bxl) bxl;
                               event = AbsolutePathSandboxEvent ''realpath'' kGenericProbe
                                         (getpid bxl) (getppid bxl) 0 resolved;
                               bxl = CreateAndReportAccess sy event True bxl
                           in (result, bxl))
                     else (result, bxl)))"

text \<open>The readlink events among the reports a call has added, by their paths.\<close>

definition readlinks_sent :: "BxlObserver \<Rightarrow> BxlObserver \<Rightarrow> string list" where
  "readlinks_sent before after =
     map src_path (filter (\<lambda>e. event_type e = kReadLink)
                     (drop (length (reports before)) (reports after)))"

text \<open>
  The process-start report of a fork or clone: the clone event for the pair (pid, ppid),
  as it leaves the access checker.
\<close>

definition process_start_report :: "sys \<Rightarrow> string \<Rightarrow> int \<Rightarrow> int \<Rightarrow> string \<Rightarrow> SandboxEvent" where
  "process_start_report sy syscall child parent program =
     (CloneSandboxEvent syscall child parent program)
       \<lparr>access_check := Some (policy sy (CloneSandboxEvent syscall child parent program))\<rparr>"

text \<open>Concrete inputs on which the theorems are run.\<close>

definition sys0 :: sys where
  "sys0 = \<lparr>get_mode = (\<lambda>p. 0), normalize_path_at = (\<lambda>fd p fl. p),
           EnumerateDirectory = (\<lambda>p. None), is_symlink = (\<lambda>p. False),
           policy = (\<lambda>e. Allow), Invalid = Allow, is_breakaway = (\<lambda>p. False),
           requires_ptrace = (\<lambda>p. False), resolve_filename_with_env = (\<lambda>p. None),
           proc_self_fd = Map.empty\<rparr>"

definition bxl0 :: BxlObserver where
  "bxl0 = \<lparr>getpid = 100, getppid = 1, errno = 0, GetProgramPath = ''/usr/bin/tool'',
           getFamPath = ''/tmp/fam'', GetDetoursLibPath = ''/opt/libDetours.so'',
           environ = [], fd_table = Map.empty,
           accesses = [], reports = [], forwarded = []\<rparr>"

definition sys1 :: sys where
  "sys1 = sys0\<lparr>get_mode := (\<lambda>p. if p = ''/src/a.txt'' then 33188 else 0)\<rparr>"

text \<open>
  The third scenario of the spec: \<open>/dir\<close> holds \<open>a\<close>, \<open>b\<close> and \<open>b/c\<close>, and the manifest
  denies writes under \<open>/dir2/b\<close>. In the second system \<open>/locked\<close> is a directory
  that cannot be enumerated and \<^verbatim>\<open>AccessCheckResult::Invalid()\<close> denies. In the third the
  manifest only warns, on the removal of \<open>/d/a\<close>.
\<close>

definition sys_rename :: sys where
  "sys_rename = sys0
     \<lparr>get_mode := (\<lambda>p. if p = ''/dir'' \<or> p = ''/dir/b'' then 16877
                        else if p = ''/dir/a'' \<or> p = ''/dir/b/c'' then 33188 else 0),
      EnumerateDirectory :=
        (\<lambda>p. if p = ''/dir'' then Some [''/dir/a'', ''/dir/b'', ''/dir/b/c''] else None),
      policy := (\<lambda>e. if (event_type e = kCreate \<or> event_type e = kGenericWrite)
                          \<and> take 7 (src_path e) = ''/dir2/b'' then Deny else Allow)\<rparr>"



text \<open>A system in which \<open>/bin/static\<close> needs the tracer and \<open>/bin/away\<close> breaks away.\<close>

definition sys_exec :: sys where
  "sys_exec = sys0\<lparr>is_breakaway := (\<lambda>p. p = ''/bin/away''),
                   requires_ptrace := (\<lambda>p. p = ''/bin/static'')\<rparr>"

text \<open>A file system in which \<open>/usr/lib\<close> is a symlink, to \<open>/usr/lib64\<close>.\<close>

definition sys_links :: sys where
  "sys_links = sys0\<lparr>is_symlink := (\<lambda>p. p = ''/usr/lib'')\<rparr>"

definition memstream :: FILE where
  "memstream = \<lparr>fileno = - 1\<rparr>"

section \<open>Theorems\<close>

subsection \<open>Helper facts on the observer's methods\<close>

lemma CreateAccess_eq:
  "CreateAccess sy ev c bxl =
     (policy sy ev, ev\<lparr>access_check := Some (policy sy ev)\<rparr>,
      bxl\<lparr>accesses := accesses bxl @ [ev\<lparr>access_check := Some (policy sy ev)\<rparr>]\<rparr>)"
  by (simp add: CreateAccess_def Let_def)

lemma check_fwd_and_report_accesses:
  "accesses (snd (check_fwd_and_report sy name ev v r bxl)) = accesses bxl"
  by (simp add: check_fwd_and_report_def fwd_def restore_def SendReport_def Let_def)

subsection \<open>Process-start reports of fork, vfork and clone\<close>

lemma fork_vfork_reports:
  assumes "0 < child"
  shows "map (\<lambda>(r, b). (r, getpid b, reports b)) (fork sy (ForkCreates child) bxl) =
           [(child, getpid bxl,
               reports bxl @ [process_start_report sy ''fork'' child (getpid bxl) (GetProgramPath bxl)]),
            (0, child, [process_start_report sy ''fork'' child (getpid bxl) (GetProgramPath bxl)])]
       \<and> map (\<lambda>(r, b). (r, getpid b, reports b)) (vfork sy (ForkCreates child) bxl) =
           [(child, getpid bxl,
               reports bxl @ [process_start_report sy ''vfork'' child (getpid bxl) (GetProgramPath bxl)]),
            (0, child, [process_start_report sy ''vfork'' child (getpid bxl) (GetProgramPath bxl)])]
       \<and> pid (process_start_report sy syscall child (getpid bxl) (GetProgramPath bxl)) = child
       \<and> ppid (process_start_report sy syscall child (getpid bxl) (GetProgramPath bxl)) = getpid bxl
       \<and> event_type (process_start_report sy syscall child (getpid bxl) (GetProgramPath bxl)) = kClone"
  using assms
  by (simp add: fork_def vfork_def HandleForkOrCloneReporting_def
       report_child_process_def CreateAndReportAccess_def CreateAccess_eq SendReport_def
       restore_def reset_fd_table_def process_start_report_def CloneSandboxEvent_def Let_def)

text \<open>
  The interposed clone returns in the caller only. Without CLONE_THREAD the caller sends
  its report; the child, started in \<^verbatim>\<open>fn\<close>, has sent nothing. With CLONE_THREAD nothing
  is sent or checked.
\<close>

lemma clone_reports:
  assumes "0 < child"
  shows "((flags AND CLONE_THREAD) = 0 \<longrightarrow>
            map (\<lambda>(r, b). (r, getpid b, reports b)) (clone sy (ForkCreates child) flags bxl) =
              [(child, getpid bxl,
                  reports bxl @ [process_start_report sy ''clone'' child (getpid bxl) (GetProgramPath bxl)])])
       \<and> ((flags AND CLONE_THREAD) \<noteq> 0 \<longrightarrow>
            map (\<lambda>(r, b). (r, reports b, accesses b)) (clone sy (ForkCreates child) flags bxl) =
              [(child, reports bxl, accesses bxl)])
       \<and> reports (started_in_fn child bxl) = []"
  using assms
  by (simp add: clone_def HandleForkOrCloneReporting_def started_in_fn_def
       report_child_process_def CreateAndReportAccess_def CreateAccess_eq SendReport_def
       restore_def process_start_report_def CloneSandboxEvent_def Let_def)

text \<open>
  C1. A fork or vfork that creates a process sends the two process-start reports, one in
  the caller (the child's pid, the caller's pid as ppid) and one in the child (its own
  pid), and a clone with CLONE_THREAD sends none. A clone without CLONE_THREAD that
  creates process 101 from process 100 sends the caller's report only: the shim calls
  the handler that serves both sides, but the child starts in \<^verbatim>\<open>fn\<close> and never comes
  back through the shim, so the report of the child's side is missing.
\<close>

theorem C1_clone_child_side_report_missing:
  "map (\<lambda>(r, b). (r, getpid b, map pid (reports b), map ppid (reports b)))
     (clone sys0 (ForkCreates 101) 0 bxl0) = [(101, 100, [101], [100])]
   \<and> reports (started_in_fn 101 bxl0) = []
   \<and> map (\<lambda>(r, b). (r, getpid b, map pid (reports b), map ppid (reports b)))
        (fork sys0 (ForkCreates 101) bxl0) = [(101, 100, [101], [100]), (0, 101, [101], [100])]
   \<and> map (\<lambda>(r, b). (r, getpid b, map pid (reports b), map ppid (reports b)))
        (vfork sys0 (ForkCreates 101) bxl0) = [(101, 100, [101], [100]), (0, 101, [101], [100])]
   \<and> map (\<lambda>(r, b). (r, reports b, accesses b))
        (clone sys0 (ForkCreates 101) CLONE_THREAD bxl0) = [(101, [], [])]"
  by (simp add: clone_def fork_def vfork_def HandleForkOrCloneReporting_def started_in_fn_def
       report_child_process_def CreateAndReportAccess_def CreateAccess_eq SendReport_def
       restore_def reset_fd_table_def CloneSandboxEvent_def Let_def bxl0_def CLONE_THREAD_def)

subsection \<open>Classification of an open\<close>

lemma creat_or_trunc_set:
  "((oflag :: cint) AND (O_CREAT OR O_TRUNC)) \<noteq> 0
     \<longleftrightarrow> (oflag AND O_CREAT \<noteq> 0 \<or> oflag AND O_TRUNC \<noteq> 0)"
  by (simp add: bit.conj_disj_distrib or_eq_0_iff)

lemma CreateFileOpen_type:
  "event_type (fst (CreateFileOpen sy p oflag bxl)) =
     (if get_mode sy p = 0 \<and> (oflag AND O_CREAT \<noteq> 0 \<or> oflag AND O_TRUNC \<noteq> 0) then kCreate
      else if get_mode sy p \<noteq> 0 \<and> (oflag AND O_CREAT \<noteq> 0 \<or> oflag AND O_TRUNC \<noteq> 0)
              \<and> (oflag AND O_ACCMODE = O_WRONLY \<or> oflag AND O_ACCMODE = O_RDWR) then kGenericWrite
      else kOpen)"
  unfolding CreateFileOpen_def Let_def creat_or_trunc_set
  by (simp add: CreateAccess_eq AbsolutePathSandboxEvent_def SetMode_def
        SetRequiredPathResolution_def)

lemma CreateFileOpen_accesses:
  "accesses (snd (CreateFileOpen sy p oflag bxl))
     = accesses bxl @ [fst (CreateFileOpen sy p oflag bxl)]"
  by (simp add: CreateFileOpen_def Let_def CreateAccess_eq)

lemma open_accesses:
  "accesses (snd (open' sy real_open path oflag md bxl))
     = accesses bxl @ [fst (CreateFileOpen sy (normalize_path sy path 0) oflag bxl)]"
  using check_fwd_and_report_accesses
    [of sy "''open''" "fst (CreateFileOpen sy (normalize_path sy path 0) oflag bxl)"
      ERROR_RETURN_VALUE "real_open (path, oflag, md)"
      "snd (CreateFileOpen sy (normalize_path sy path 0) oflag bxl)"]
  by (simp add: open'_def Let_def split_beta ret_fd_def reset_fd_table_entry_def
        CreateFileOpen_accesses)

lemma open64_accesses:
  "accesses (snd (open64 sy real_open path oflag md bxl))
     = accesses bxl @ [fst (CreateFileOpen sy (normalize_path sy path 0) oflag bxl)]"
  using check_fwd_and_report_accesses
    [of sy "''open64''" "fst (CreateFileOpen sy (normalize_path sy path 0) oflag bxl)"
      ERROR_RETURN_VALUE "real_open (path, oflag, md)"
      "snd (CreateFileOpen sy (normalize_path sy path 0) oflag bxl)"]
  by (simp add: open64_def Let_def split_beta ret_fd_def reset_fd_table_entry_def
        CreateFileOpen_accesses)

lemma openat_accesses:
  "accesses (snd (openat sy real_openat dfd path oflag md bxl))
     = accesses bxl @ [fst (CreateFileOpen sy (normalize_path_at sy dfd path 0) oflag bxl)]"
  using check_fwd_and_report_accesses
    [of sy "''openat''" "fst (CreateFileOpen sy (normalize_path_at sy dfd path 0) oflag bxl)"
      ERROR_RETURN_VALUE "real_openat (dfd, path, oflag, md)"
      "snd (CreateFileOpen sy (normalize_path_at sy dfd path 0) oflag bxl)"]
  by (simp add: openat_def Let_def split_beta ret_fd_def reset_fd_table_entry_def
        CreateFileOpen_accesses)

lemma openat64_accesses:
  "accesses (snd (openat64 sy real_openat dfd path oflag md bxl))
     = accesses bxl @ [fst (CreateFileOpen sy (normalize_path_at sy dfd path 0) oflag bxl)]"
  using check_fwd_and_report_accesses
    [of sy "''openat''" "fst (CreateFileOpen sy (normalize_path_at sy dfd path 0) oflag bxl)"
      ERROR_RETURN_VALUE "real_openat (dfd, path, oflag, md)"
      "snd (CreateFileOpen sy (normalize_path_at sy dfd path 0) oflag bxl)"]
  by (simp add: openat64_def Let_def split_beta ret_fd_def reset_fd_table_entry_def
        CreateFileOpen_accesses)

text \<open>
  C4. Each of open, open64, openat and openat64 hands exactly one event to the access
  checker, the one \<^verbatim>\<open>CreateFileOpen\<close> builds for the normalized path and the flags. That
  event is classified as create if and only if the path does not exist (its mode is 0)
  and O_CREAT or O_TRUNC is set; as generic-write if and only if the path exists, O_CREAT
  or O_TRUNC is set and the access mode is O_WRONLY or O_RDWR; and as open in every
  other case.
\<close>

theorem C4_open_classification:
  "accesses (snd (open' sy real_open path oflag md bxl))
     = accesses bxl @ [fst (CreateFileOpen sy (normalize_path sy path 0) oflag bxl)]
   \<and> accesses (snd (open64 sy real_open path oflag md bxl))
     = accesses bxl @ [fst (CreateFileOpen sy (normalize_path sy path 0) oflag bxl)]
   \<and> accesses (snd (openat sy real_openat dfd path oflag md bxl))
     = accesses bxl @ [fst (CreateFileOpen sy (normalize_path_at sy dfd path 0) oflag bxl)]
   \<and> accesses (snd (openat64 sy real_openat dfd path oflag md bxl))
     = accesses bxl @ [fst (CreateFileOpen sy (normalize_path_at sy dfd path 0) oflag bxl)]
   \<and> (event_type (fst (CreateFileOpen sy p oflag bxl)) = kCreate)
       = (get_mode sy p = 0 \<and> (oflag AND O_CREAT \<noteq> 0 \<or> oflag AND O_TRUNC \<noteq> 0))
   \<and> (event_type (fst (CreateFileOpen sy p oflag bxl)) = kGenericWrite)
       = (get_mode sy p \<noteq> 0 \<and> (oflag AND O_CREAT \<noteq> 0 \<or> oflag AND O_TRUNC \<noteq> 0)
          \<and> (oflag AND O_ACCMODE = O_WRONLY \<or> oflag AND O_ACCMODE = O_RDWR))
   \<and> (event_type (fst (CreateFileOpen sy p oflag bxl)) = kOpen)
       = (\<not> (get_mode sy p = 0 \<and> (oflag AND O_CREAT \<noteq> 0 \<or> oflag AND O_TRUNC \<noteq> 0))
          \<and> \<not> (get_mode sy p \<noteq> 0 \<and> (oflag AND O_CREAT \<noteq> 0 \<or> oflag AND O_TRUNC \<noteq> 0)
                \<and> (oflag AND O_ACCMODE = O_WRONLY \<or> oflag AND O_ACCMODE = O_RDWR)))"
proof -
  have kinds: "event_type (fst (CreateFileOpen sy p oflag bxl)) =
     (if get_mode sy p = 0 \<and> (oflag AND O_CREAT \<noteq> 0 \<or> oflag AND O_TRUNC \<noteq> 0) then kCreate
      else if get_mode sy p \<noteq> 0 \<and> (oflag AND O_CREAT \<noteq> 0 \<or> oflag AND O_TRUNC \<noteq> 0)
              \<and> (oflag AND O_ACCMODE = O_WRONLY \<or> oflag AND O_ACCMODE = O_RDWR) then kGenericWrite
      else kOpen)"
    by (rule CreateFileOpen_type)
  have create: "(event_type (fst (CreateFileOpen sy p oflag bxl)) = kCreate)
       = (get_mode sy p = 0 \<and> (oflag AND O_CREAT \<noteq> 0 \<or> oflag AND O_TRUNC \<noteq> 0))"
    unfolding kinds by auto
  have wr: "(event_type (fst (CreateFileOpen sy p oflag bxl)) = kGenericWrite)
       = (get_mode sy p \<noteq> 0 \<and> (oflag AND O_CREAT \<noteq> 0 \<or> oflag AND O_TRUNC \<noteq> 0)
          \<and> (oflag AND O_ACCMODE = O_WRONLY \<or> oflag AND O_ACCMODE = O_RDWR))"
    unfolding kinds by auto
  have other: "(event_type (fst (CreateFileOpen sy p oflag bxl)) = kOpen)
       = (\<not> (get_mode sy p = 0 \<and> (oflag AND O_CREAT \<noteq> 0 \<or> oflag AND O_TRUNC \<noteq> 0))
          \<and> \<not> (get_mode sy p \<noteq> 0 \<and> (oflag AND O_CREAT \<noteq> 0 \<or> oflag AND O_TRUNC \<noteq> 0)
                \<and> (oflag AND O_ACCMODE = O_WRONLY \<or> oflag AND O_ACCMODE = O_RDWR)))"
    unfolding kinds by auto
  show ?thesis
    by (intro conjI)
       (rule open_accesses open64_accesses openat_accesses openat64_accesses create wr other)+
qed

theorem C4_open_classification_witness:
  "event_type (last (accesses (snd (open' sys1 (\<lambda>a. \<lparr>get = 3, get_errno = 0\<rparr>)
      ''/out/new.o'' (O_CREAT OR O_WRONLY) 420 bxl0)))) = kCreate
   \<and> event_type (last (accesses (snd (openat sys1 (\<lambda>a. \<lparr>get = 3, get_errno = 0\<rparr>) AT_FDCWD
      ''/src/a.txt'' (O_TRUNC OR O_RDWR) 420 bxl0)))) = kGenericWrite
   \<and> event_type (last (accesses (snd (open64 sys1 (\<lambda>a. \<lparr>get = 3, get_errno = 0\<rparr>)
      ''/src/a.txt'' O_CREAT 420 bxl0)))) = kOpen
   \<and> event_type (last (accesses (snd (openat64 sys1 (\<lambda>a. \<lparr>get = 3, get_errno = 0\<rparr>) AT_FDCWD
      ''/out/new.o'' O_WRONLY 420 bxl0)))) = kOpen"
proof -
  have m: "get_mode sys1 ''/out/new.o'' = 0" "get_mode sys1 ''/src/a.txt'' \<noteq> 0"
    by (simp_all add: sys1_def sys0_def)
  have n: "normalize_path sys1 p 0 = p" "normalize_path_at sys1 d p 0 = p" for p d
    by (simp_all add: normalize_path_def sys1_def sys0_def)
  show ?thesis
    using
      C4_open_classification [of sys1 "\<lambda>a. \<lparr>get = 3, get_errno = 0\<rparr>" "''/out/new.o''"
        "O_CREAT OR O_WRONLY" 420 bxl0 "\<lambda>a. \<lparr>get = 3, get_errno = 0\<rparr>" AT_FDCWD "''/out/new.o''"]
      C4_open_classification [of sys1 "\<lambda>a. \<lparr>get = 3, get_errno = 0\<rparr>" "''/src/a.txt''"
        "O_TRUNC OR O_RDWR" 420 bxl0 "\<lambda>a. \<lparr>get = 3, get_errno = 0\<rparr>" AT_FDCWD "''/src/a.txt''"]
      C4_open_classification [of sys1 "\<lambda>a. \<lparr>get = 3, get_errno = 0\<rparr>" "''/src/a.txt''"
        "O_CREAT" 420 bxl0 "\<lambda>a. \<lparr>get = 3, get_errno = 0\<rparr>" AT_FDCWD "''/src/a.txt''"]
      C4_open_classification [of sys1 "\<lambda>a. \<lparr>get = 3, get_errno = 0\<rparr>" "''/out/new.o''"
        "O_WRONLY" 420 bxl0 "\<lambda>a. \<lparr>get = 3, get_errno = 0\<rparr>" AT_FDCWD "''/out/new.o''"]
    by (simp add: m n O_CREAT_def O_WRONLY_def O_TRUNC_def O_RDWR_def O_ACCMODE_def)
qed

subsection \<open>The test of O_NOFOLLOW\<close>

lemma nofollow_test_low_bit:
  "((oflag :: cint) AND c_bool (O_NOFOLLOW \<noteq> 0)) \<noteq> 0 \<longleftrightarrow> bit oflag 0"
  by (simp add: c_bool_def O_NOFOLLOW_def and_one_eq bit_0 odd_iff_mod_2_eq_one)

lemma CreateFileOpen_resolution:
  "required_path_resolution (fst (CreateFileOpen sy p oflag bxl))
     = (if bit oflag 0 then kResolveNoFollow else kFullyResolve)"
  unfolding CreateFileOpen_def Let_def nofollow_test_low_bit
  by (simp add: CreateAccess_eq AbsolutePathSandboxEvent_def SetMode_def
        SetRequiredPathResolution_def)

lemma unlinkat_resolution:
  assumes "dfd \<noteq> AT_FDCWD \<or> path \<noteq> Some []"
  shows "map required_path_resolution (accesses (snd (unlinkat sy real_unlinkat dfd path flags bxl)))
           = map required_path_resolution (accesses bxl) @ [kFullyResolve]"
  using assms
  by (auto simp add: unlinkat_def Let_def split_beta check_fwd_and_report_accesses
        CreateAccess_eq RelativePathSandboxEvent_def c_bool_def O_NOFOLLOW_def)

text \<open>
  C5. Where the source tests \<^verbatim>\<open>oflag & O_NOFOLLOW != 0\<close>, the condition is
  \<^verbatim>\<open>oflag & 1\<close>. The event of the open family asks for no-follow resolution if and only
  if the lowest bit of the flags is set, which is the bit of O_WRONLY: with O_NOFOLLOW
  alone the resolution stays resolve-fully, with O_WRONLY alone it is no-follow. The
  event of unlinkat, whose tested word is 0 or O_NOFOLLOW, never asks for no-follow
  resolution.
\<close>

theorem C5_nofollow_test_is_lowest_bit:
  "(required_path_resolution (fst (CreateFileOpen sy p oflag bxl)) = kResolveNoFollow) = bit oflag 0
   \<and> map required_path_resolution (accesses (snd (open' sy real_open path oflag md bxl)))
       = map required_path_resolution (accesses bxl)
           @ [if bit oflag 0 then kResolveNoFollow else kFullyResolve]
   \<and> map required_path_resolution (accesses (snd (openat sy real_openat dfd path oflag md bxl)))
       = map required_path_resolution (accesses bxl)
           @ [if bit oflag 0 then kResolveNoFollow else kFullyResolve]
   \<and> bit O_WRONLY 0 \<and> \<not> bit O_NOFOLLOW 0
   \<and> required_path_resolution (fst (CreateFileOpen sy p O_NOFOLLOW bxl)) = kFullyResolve
   \<and> required_path_resolution (fst (CreateFileOpen sy p O_WRONLY bxl)) = kResolveNoFollow
   \<and> (dfd \<noteq> AT_FDCWD \<or> upath \<noteq> Some [] \<longrightarrow>
         map required_path_resolution
             (accesses (snd (unlinkat sy real_unlinkat dfd upath flags bxl)))
           = map required_path_resolution (accesses bxl) @ [kFullyResolve])"
proof -
  have bits: "bit O_WRONLY 0" "\<not> bit O_NOFOLLOW 0"
    by (simp_all add: O_WRONLY_def O_NOFOLLOW_def bit_0)
  have a: "(required_path_resolution (fst (CreateFileOpen sy p oflag bxl)) = kResolveNoFollow)
             = bit oflag 0"
    by (simp add: CreateFileOpen_resolution)
  have b: "map required_path_resolution (accesses (snd (open' sy real_open path oflag md bxl)))
       = map required_path_resolution (accesses bxl)
           @ [if bit oflag 0 then kResolveNoFollow else kFullyResolve]"
    by (simp only: open_accesses map_append list.map CreateFileOpen_resolution)
  have c: "map required_path_resolution (accesses (snd (openat sy real_openat dfd path oflag md bxl)))
       = map required_path_resolution (accesses bxl)
           @ [if bit oflag 0 then kResolveNoFollow else kFullyResolve]"
    by (simp only: openat_accesses map_append list.map CreateFileOpen_resolution)
  have d: "required_path_resolution (fst (CreateFileOpen sy p O_NOFOLLOW bxl)) = kFullyResolve"
    "required_path_resolution (fst (CreateFileOpen sy p O_WRONLY bxl)) = kResolveNoFollow"
    by (simp_all add: CreateFileOpen_resolution bits)
  have e: "dfd \<noteq> AT_FDCWD \<or> upath \<noteq> Some [] \<longrightarrow>
         map required_path_resolution
             (accesses (snd (unlinkat sy real_unlinkat dfd upath flags bxl)))
           = map required_path_resolution (accesses bxl) @ [kFullyResolve]"
    using unlinkat_resolution by blast
  show ?thesis
    by (intro conjI) (rule a b c bits d e)+
qed

theorem C5_nofollow_test_is_lowest_bit_witness:
  "map required_path_resolution
     (accesses (snd (unlinkat sys0 (\<lambda>a. \<lparr>get = 0, get_errno = 0\<rparr>) AT_FDCWD (Some ''/tmp/x'') 0 bxl0)))
     = [kFullyResolve]
   \<and> map required_path_resolution
     (accesses (snd (open' sys0 (\<lambda>a. \<lparr>get = 3, get_errno = 0\<rparr>) ''/tmp/x'' O_NOFOLLOW 0 bxl0)))
     = [kFullyResolve]
   \<and> map required_path_resolution
     (accesses (snd (open' sys0 (\<lambda>a. \<lparr>get = 3, get_errno = 0\<rparr>) ''/tmp/x'' O_WRONLY 0 bxl0)))
     = [kResolveNoFollow]"
proof -
  have h: "AT_FDCWD \<noteq> AT_FDCWD \<or> Some ''/tmp/x'' \<noteq> Some []" by simp
  have bits: "bit O_WRONLY 0" "\<not> bit O_NOFOLLOW 0"
    by (simp_all add: O_WRONLY_def O_NOFOLLOW_def bit_0)
  show ?thesis
    using h bits
      C5_nofollow_test_is_lowest_bit [of sys0 "''/tmp/x''" O_NOFOLLOW bxl0
        "\<lambda>a. \<lparr>get = 3, get_errno = 0\<rparr>" "''/tmp/x''" 0 "\<lambda>a. \<lparr>get = 3, get_errno = 0\<rparr>"
        AT_FDCWD "Some ''/tmp/x''" "\<lambda>a. \<lparr>get = 0, get_errno = 0\<rparr>" 0]
      C5_nofollow_test_is_lowest_bit [of sys0 "''/tmp/x''" O_WRONLY bxl0
        "\<lambda>a. \<lparr>get = 3, get_errno = 0\<rparr>" "''/tmp/x''" 0 "\<lambda>a. \<lparr>get = 3, get_errno = 0\<rparr>"
        AT_FDCWD "Some ''/tmp/x''" "\<lambda>a. \<lparr>get = 0, get_errno = 0\<rparr>" 0]
    by (simp add: bxl0_def)
qed

subsection \<open>Streams without a descriptor\<close>

text \<open>
  C10. When \<^verbatim>\<open>fileno\<close> of the stream is -1, each of fread, fwrite, fputc, fputs, putc and
  vfprintf invokes the real primitive once, on the arguments it was given, and returns
  its value; the caller's state changes in errno, which is that of the real primitive,
  and in the log of invoked primitives only: no event is built, checked or reported.
\<close>

theorem C10_stream_without_descriptor:
  assumes "fileno stream = - 1"
  shows "fread sy real_fread ptr n m stream bxl =
           (get (real_fread (ptr, n, m, stream)),
            bxl\<lparr>forwarded := forwarded bxl @ [Real ''fread''],
                errno := get_errno (real_fread (ptr, n, m, stream))\<rparr>)
       \<and> fwrite sy real_fwrite ptr n m stream bxl =
           (get (real_fwrite (ptr, n, m, stream)),
            bxl\<lparr>forwarded := forwarded bxl @ [Real ''fwrite''],
                errno := get_errno (real_fwrite (ptr, n, m, stream))\<rparr>)
       \<and> fputc sy real_fputc c stream bxl =
           (get (real_fputc (c, stream)),
            bxl\<lparr>forwarded := forwarded bxl @ [Real ''fputc''],
                errno := get_errno (real_fputc (c, stream))\<rparr>)
       \<and> fputs sy real_fputs s stream bxl =
           (get (real_fputs (s, stream)),
            bxl\<lparr>forwarded := forwarded bxl @ [Real ''fputs''],
                errno := get_errno (real_fputs (s, stream))\<rparr>)
       \<and> putc sy real_putc c stream bxl =
           (get (real_putc (c, stream)),
            bxl\<lparr>forwarded := forwarded bxl @ [Real ''putc''],
                errno := get_errno (real_putc (c, stream))\<rparr>)
       \<and> vfprintf sy real_vfprintf stream fmt args bxl =
           (get (real_vfprintf (stream, fmt, args)),
            bxl\<lparr>forwarded := forwarded bxl @ [Real ''vfprintf''],
                errno := get_errno (real_vfprintf (stream, fmt, args))\<rparr>)"
  using assms
  by (simp add: fread_def fwrite_def fputc_def fputs_def putc_def vfprintf_def fwd_def
        restore_def)

theorem C10_stream_without_descriptor_witness:
  "fileno memstream = - 1
   \<and> fread sys0 (\<lambda>a. \<lparr>get = 0, get_errno = 9\<rparr>) () 1 16 memstream bxl0
       = (0, bxl0\<lparr>forwarded := [Real ''fread''], errno := 9\<rparr>)
   \<and> accesses (snd (fread sys0 (\<lambda>a. \<lparr>get = 0, get_errno = 9\<rparr>) () 1 16 memstream bxl0)) = []
   \<and> reports (snd (fread sys0 (\<lambda>a. \<lparr>get = 0, get_errno = 9\<rparr>) () 1 16 memstream bxl0)) = []
   \<and> vfprintf sys0 (\<lambda>a. \<lparr>get = 5, get_errno = 0\<rparr>) memstream ''hello'' () bxl0
       = (5, bxl0\<lparr>forwarded := [Real ''vfprintf''], errno := 0\<rparr>)"
proof -
  have h: "fileno memstream = - 1" by (simp add: memstream_def)
  show ?thesis
    using h
      C10_stream_without_descriptor [OF h, of sys0 "\<lambda>a. \<lparr>get = 0, get_errno = 9\<rparr>" "()" 1 16 bxl0
        "\<lambda>a. \<lparr>get = 0, get_errno = 9\<rparr>" "\<lambda>a. \<lparr>get = 0, get_errno = 0\<rparr>" 0
        "\<lambda>a. \<lparr>get = 0, get_errno = 0\<rparr>" "[]" "\<lambda>a. \<lparr>get = 0, get_errno = 0\<rparr>"
        "\<lambda>a. \<lparr>get = 5, get_errno = 0\<rparr>" "''hello''" "()"]
    by (simp add: bxl0_def)
qed

subsection \<open>Renames\<close>

lemma CreateFileOpen_snd:
  "snd (CreateFileOpen sy p fl bxl) = bxl\<lparr>accesses := accesses bxl @ [fst (CreateFileOpen sy p fl bxl)]\<rparr>"
  by (simp add: CreateFileOpen_def Let_def CreateAccess_eq)

lemma CreateFileOpen_fst_accesses:
  "fst (CreateFileOpen sy p fl (bxl\<lparr>accesses := x\<rparr>)) = fst (CreateFileOpen sy p fl bxl)"
  by (simp add: CreateFileOpen_def Let_def CreateAccess_eq)

lemma descendant_check_eq:
  "descendant_check sy old new bxl f =
     Combine (policy sy (SetRequiredPathResolution kResolveNoFollow
                (AbsolutePathSandboxEvent ''handle_renameat'' kUnlink (getpid bxl) (getppid bxl) 0 f)))
             (GetSourceAccessCheckResult sy
                (fst (CreateFileOpen sy (new @ drop (length old) f) (O_CREAT OR O_WRONLY) bxl)))"
  by (simp add: descendant_check_def Let_def CreateAccess_eq split_beta CreateFileOpen_fst_accesses)

lemma descendant_events_eq:
  "descendant_events sy old new bxl f =
     [(SetRequiredPathResolution kResolveNoFollow
         (AbsolutePathSandboxEvent ''handle_renameat'' kUnlink (getpid bxl) (getppid bxl) 0 f))
        \<lparr>access_check := Some (policy sy (SetRequiredPathResolution kResolveNoFollow
            (AbsolutePathSandboxEvent ''handle_renameat'' kUnlink (getpid bxl) (getppid bxl) 0 f)))\<rparr>,
      fst (CreateFileOpen sy (new @ drop (length old) f) (O_CREAT OR O_WRONLY) bxl)]"
  by (simp add: descendant_events_def Let_def CreateAccess_eq split_beta CreateFileOpen_fst_accesses)

lemma renameat_loop_Cons:
  "renameat_loop sy old new (f # fs) c evs bxl =
     (if should_deny (descendant_check sy old new bxl f)
      then (descendant_check sy old new bxl f, evs @ descendant_events sy old new bxl f,
            bxl\<lparr>accesses := accesses bxl @ descendant_events sy old new bxl f\<rparr>)
      else renameat_loop sy old new fs (descendant_check sy old new bxl f)
             (evs @ descendant_events sy old new bxl f)
             (bxl\<lparr>accesses := accesses bxl @ descendant_events sy old new bxl f\<rparr>))"
  by (simp add: descendant_check_eq descendant_events_eq Let_def CreateAccess_eq split_beta
        CreateFileOpen_snd CreateFileOpen_fst_accesses)

lemma descendant_accesses:
  "descendant_check sy old new (bxl\<lparr>accesses := x\<rparr>) f = descendant_check sy old new bxl f"
  "descendant_events sy old new (bxl\<lparr>accesses := x\<rparr>) f = descendant_events sy old new bxl f"
  by (simp_all add: descendant_check_eq descendant_events_eq CreateFileOpen_fst_accesses)

lemma examined_nonempty: "fs \<noteq> [] \<Longrightarrow> examined D fs \<noteq> []"
  by (cases fs) auto

lemma renameat_loop_result:
  "renameat_loop sy old new files c evs bxl =
     (if files = [] then c
      else descendant_check sy old new bxl
             (last (examined (\<lambda>f. should_deny (descendant_check sy old new bxl f)) files)),
      evs @ concat (map (descendant_events sy old new bxl)
                      (examined (\<lambda>f. should_deny (descendant_check sy old new bxl f)) files)),
      bxl\<lparr>accesses := accesses bxl @ concat (map (descendant_events sy old new bxl)
                      (examined (\<lambda>f. should_deny (descendant_check sy old new bxl f)) files))\<rparr>)"
proof (induction files arbitrary: c evs bxl)
  case Nil
  show ?case by simp
next
  case (Cons f fs)
  show ?case
  proof (cases "should_deny (descendant_check sy old new bxl f)")
    case True
    then show ?thesis by (simp add: renameat_loop_Cons del: renameat_loop.simps(2))
  next
    case False
    then show ?thesis
      by (simp add: renameat_loop_Cons Cons.IH descendant_accesses examined_nonempty
            del: renameat_loop.simps(2))
  qed
qed





lemma handle_renameat_state:
  "snd (snd (handle_renameat sy olddirfd oldpath newdirfd newpath evs bxl))
     = bxl\<lparr>accesses := accesses (snd (snd (handle_renameat sy olddirfd oldpath newdirfd newpath evs bxl)))\<rparr>"
  by (simp add: handle_renameat_def Let_def renameat_loop_result CreateAccess_eq split_beta
        CreateFileOpen_snd split: option.split)

text \<open>
  The accumulated list is empty only for a directory source whose enumeration fails or
  yields nothing; the decision is then the value of \<^verbatim>\<open>AccessCheckResult::Invalid()\<close>.
\<close>

lemma handle_renameat_empty:
  assumes "fst (snd (handle_renameat sy olddirfd oldpath newdirfd newpath [] bxl)) = []"
  shows "S_ISDIR (get_mode sy (normalize_path_at sy olddirfd oldpath O_NOFOLLOW))
         \<and> (EnumerateDirectory sy (normalize_path_at sy olddirfd oldpath O_NOFOLLOW) = None
             \<or> EnumerateDirectory sy (normalize_path_at sy olddirfd oldpath O_NOFOLLOW) = Some [])
         \<and> fst (handle_renameat sy olddirfd oldpath newdirfd newpath [] bxl) = Invalid sy"
proof -
  let ?old = "normalize_path_at sy olddirfd oldpath O_NOFOLLOW"
  let ?new = "normalize_path_at sy newdirfd newpath O_NOFOLLOW"
  have ne: "concat (map (descendant_events sy ?old ?new bxl) (examined D files)) \<noteq> []"
    if "files \<noteq> []" for D files
  proof (cases "examined D files")
    case Nil
    then show ?thesis using examined_nonempty [OF that, of D] by simp
  next
    case (Cons f fs)
    then show ?thesis by (simp add: descendant_events_eq)
  qed
  have dir: "S_ISDIR (get_mode sy ?old)"
  proof (rule ccontr)
    assume "\<not> S_ISDIR (get_mode sy ?old)"
    then have "fst (snd (handle_renameat sy olddirfd oldpath newdirfd newpath [] bxl)) \<noteq> []"
      by (simp add: handle_renameat_def Let_def CreateAccess_eq split_beta)
    then show False using assms by simp
  qed
  show ?thesis
  proof (cases "EnumerateDirectory sy ?old")
    case None
    then show ?thesis using dir by (simp add: handle_renameat_def Let_def)
  next
    case (Some files)
    have h: "handle_renameat sy olddirfd oldpath newdirfd newpath [] bxl
               = renameat_loop sy ?old ?new files (Invalid sy) [] bxl"
      using dir Some by (simp add: handle_renameat_def Let_def)
    have "files = []"
    proof (rule ccontr)
      assume "files \<noteq> []"
      then have "fst (snd (renameat_loop sy ?old ?new files (Invalid sy) [] bxl)) \<noteq> []"
        unfolding renameat_loop_result using ne by simp
      then show False using assms h by simp
    qed
    then show ?thesis using dir Some h by simp
  qed
qed

text \<open>
  When the combined decision of \<^verbatim>\<open>handle_renameat\<close> is denied and the accumulated list
  is not empty, renameat, renameat2 and rename send exactly one report, the last of the
  accumulated source/destination events, do not invoke the real primitive, and return
  -1 with errno EPERM.
\<close>

lemma denied_rename_sends_last_event:
  assumes "handle_renameat sy olddirfd oldpath newdirfd newpath [] bxl = (check, events, bxl')"
      and "should_deny check"
      and "events \<noteq> []"
  shows "renameat sy real_renameat olddirfd oldpath newdirfd newpath bxl
           = Inr (- 1, bxl'\<lparr>reports := reports bxl @ [last events], errno := EPERM\<rparr>)
       \<and> renameat2 sy real_renameat2 olddirfd oldpath newdirfd newpath flags bxl
           = Inr (- 1, bxl'\<lparr>reports := reports bxl @ [last events], errno := EPERM\<rparr>)
       \<and> (olddirfd = AT_FDCWD \<and> newdirfd = AT_FDCWD \<longrightarrow>
            rename sy real_renameat oldpath newpath bxl
              = Inr (- 1, bxl'\<lparr>reports := reports bxl @ [last events], errno := EPERM\<rparr>))
       \<and> forwarded bxl' = forwarded bxl \<and> reports bxl' = reports bxl"
proof -
  have st: "bxl' = bxl\<lparr>accesses := accesses bxl'\<rparr>"
    using handle_renameat_state [of sy olddirfd oldpath newdirfd newpath "[]" bxl] assms(1)
    by simp
  have logs: "forwarded bxl' = forwarded bxl" "reports bxl' = reports bxl"
    by (subst st, simp)+
  obtain e es where ev: "events = e # es"
    using assms(3) by (cases events) auto
  have a: "renameat sy real_renameat olddirfd oldpath newdirfd newpath bxl
           = Inr (- 1, bxl'\<lparr>reports := reports bxl @ [last events], errno := EPERM\<rparr>)"
    using assms(1,2) logs(2)
    by (simp add: renameat_def ev restore_def SendReport_def ERROR_RETURN_VALUE_def)
  have b: "renameat2 sy real_renameat2 olddirfd oldpath newdirfd newpath flags bxl
           = Inr (- 1, bxl'\<lparr>reports := reports bxl @ [last events], errno := EPERM\<rparr>)"
    using assms(1,2) logs(2)
    by (simp add: renameat2_def ev restore_def SendReport_def ERROR_RETURN_VALUE_def)
  have c: "olddirfd = AT_FDCWD \<and> newdirfd = AT_FDCWD \<longrightarrow>
            rename sy real_renameat oldpath newpath bxl
              = Inr (- 1, bxl'\<lparr>reports := reports bxl @ [last events], errno := EPERM\<rparr>)"
    using a by (auto simp add: rename_def)
  show ?thesis
    using a b c logs by blast
qed


lemma rename_scenario:
  "fst (handle_renameat sys_rename AT_FDCWD ''/dir'' AT_FDCWD ''/dir2'' [] bxl0) = Deny"
  "map (\<lambda>e. (event_type e, src_path e))
     (fst (snd (handle_renameat sys_rename AT_FDCWD ''/dir'' AT_FDCWD ''/dir2'' [] bxl0)))
     = [(kUnlink, ''/dir/a''), (kCreate, ''/dir2/a''), (kUnlink, ''/dir/b''), (kCreate, ''/dir2/b'')]"
  by (simp_all add: handle_renameat_def sys_rename_def sys0_def S_ISDIR_def S_IFMT_def S_IFDIR_def
      Let_def CreateAccess_eq CreateFileOpen_def AbsolutePathSandboxEvent_def
      SetRequiredPathResolution_def SetMode_def GetSourceAccessCheckResult_def should_deny_def
      O_CREAT_def O_WRONLY_def O_TRUNC_def O_ACCMODE_def O_RDWR_def O_NOFOLLOW_def c_bool_def bxl0_def)

lemma denied_rename_scenario:
  "should_deny (fst (handle_renameat sys_rename AT_FDCWD ''/dir'' AT_FDCWD ''/dir2'' [] bxl0))
   \<and> fst (snd (handle_renameat sys_rename AT_FDCWD ''/dir'' AT_FDCWD ''/dir2'' [] bxl0)) \<noteq> []
   \<and> map_sum id (\<lambda>(r, b). (r, errno b, map (\<lambda>e. (event_type e, src_path e)) (reports b), forwarded b))
       (renameat sys_rename (\<lambda>a. \<lparr>get = 0, get_errno = 0\<rparr>) AT_FDCWD ''/dir'' AT_FDCWD ''/dir2'' bxl0)
       = Inr (- 1, 1, [(kCreate, ''/dir2/b'')], [])
   \<and> map_sum id (\<lambda>(r, b). (r, errno b, map (\<lambda>e. (event_type e, src_path e)) (reports b), forwarded b))
       (rename sys_rename (\<lambda>a. \<lparr>get = 0, get_errno = 0\<rparr>) ''/dir'' ''/dir2'' bxl0)
       = Inr (- 1, 1, [(kCreate, ''/dir2/b'')], [])"
proof -
  let ?h = "handle_renameat sys_rename AT_FDCWD ''/dir'' AT_FDCWD ''/dir2'' [] bxl0"
  have h1: "?h = (fst ?h, fst (snd ?h), snd (snd ?h))" by simp
  have h2: "should_deny (fst ?h)" by (simp add: rename_scenario should_deny_def)
  have evs: "map (\<lambda>e. (event_type e, src_path e)) (fst (snd ?h))
     = [(kUnlink, ''/dir/a''), (kCreate, ''/dir2/a''), (kUnlink, ''/dir/b''), (kCreate, ''/dir2/b'')]"
    by (rule rename_scenario)
  have h3: "fst (snd ?h) \<noteq> []" using evs by auto
  have l: "(\<lambda>e. (event_type e, src_path e)) (last (fst (snd ?h))) = (kCreate, ''/dir2/b'')"
    using evs h3 last_map [of "fst (snd ?h)" "\<lambda>e. (event_type e, src_path e)"] by simp
  note t = denied_rename_sends_last_event [OF h1 h2 h3, of "\<lambda>a. \<lparr>get = 0, get_errno = 0\<rparr>"
              "\<lambda>a. \<lparr>get = 0, get_errno = 0\<rparr>" 0]
  have r: "renameat sys_rename (\<lambda>a. \<lparr>get = 0, get_errno = 0\<rparr>) AT_FDCWD ''/dir'' AT_FDCWD ''/dir2'' bxl0
       = Inr (- 1, (snd (snd ?h))\<lparr>reports := reports bxl0 @ [last (fst (snd ?h))], errno := EPERM\<rparr>)"
    using t by blast
  have r': "rename sys_rename (\<lambda>a. \<lparr>get = 0, get_errno = 0\<rparr>) ''/dir'' ''/dir2'' bxl0
       = Inr (- 1, (snd (snd ?h))\<lparr>reports := reports bxl0 @ [last (fst (snd ?h))], errno := EPERM\<rparr>)"
    using t by blast
  have f: "forwarded (snd (snd ?h)) = forwarded bxl0" using t by blast
  have b0: "reports bxl0 = []" "forwarded bxl0 = []" by (simp_all add: bxl0_def)
  show ?thesis
    unfolding r r' using h2 h3 l f by (simp add: b0 EPERM_def)
qed








subsection \<open>The environment across an exec\<close>

lemma removeEnvs_has:
  "\<not> has_env LD_PRELOAD (removeEnvs e)" "\<not> has_env BXL_FAM_PATH (removeEnvs e)"
  by (auto simp add: has_env_def removeEnvs_def)

lemma ensureEnvs_has:
  "has_env LD_PRELOAD (ensureEnvs bxl e)" "has_env BXL_FAM_PATH (ensureEnvs bxl e)"
  by (auto simp add: has_env_def ensureEnvs_def ensure_env_def)

lemma ensureEnvs_keeps:
  "has_env LD_PRELOAD e \<and> has_env BXL_FAM_PATH e \<Longrightarrow> ensureEnvs bxl e = e"
  "set e \<subseteq> set (ensureEnvs bxl e)"
  by (auto simp add: ensureEnvs_def ensure_env_def)

lemma has_env_RemoveLDPreloadFromEnv:
  "has_env n (RemoveLDPreloadFromEnv e) = (has_env n e \<and> n \<noteq> LD_PRELOAD)"
  by (induction e) (auto simp add: has_env_def RemoveLDPreloadFromEnv_def)

lemma ptrace_env_has:
  "\<not> has_env LD_PRELOAD (RemoveLDPreloadFromEnv (ensureEnvs bxl e))"
  "has_env BXL_FAM_PATH (RemoveLDPreloadFromEnv (ensureEnvs bxl e))"
proof -
  have ne: "BXL_FAM_PATH \<noteq> LD_PRELOAD" by (simp add: LD_PRELOAD_def BXL_FAM_PATH_def)
  show "\<not> has_env LD_PRELOAD (RemoveLDPreloadFromEnv (ensureEnvs bxl e))"
    by (simp add: has_env_RemoveLDPreloadFromEnv)
  show "has_env BXL_FAM_PATH (RemoveLDPreloadFromEnv (ensureEnvs bxl e))"
    using ne by (simp add: has_env_RemoveLDPreloadFromEnv ensureEnvs_has)
qed

lemma report_exec_failure_forwarded:
  "forwarded (snd (report_exec_failure sy sc p a m (r, b))) = forwarded b"
  by (simp add: report_exec_failure_def Let_def CreateAndReportAccess_def CreateAccess_eq
        SendReport_def restore_def split: option.split)

lemma exec_choice_forwarded:
  "forwarded (snd (exec_choice sy sc prim file argv envp md r bxl)) =
     forwarded bxl @
       [if is_breakaway sy file then RealExec prim file (removeEnvs envp)
        else if requires_ptrace sy file
        then PTraceExec file (RemoveLDPreloadFromEnv (ensureEnvs bxl envp)) (getFamPath bxl)
        else RealExec prim file (ensureEnvs bxl envp)]"
  by (simp add: exec_choice_def report_exec_failure_forwarded fwd_exec_def
        handle_exec_with_ptrace_def Let_def reset_fd_table_def CreateAndReportAccess_def
        CreateAccess_eq SendReport_def ensureEnvs_def split: option.split)

lemma exec_choice_passed:
  "passed_envs bxl (snd (exec_choice sy sc prim file argv envp md r bxl)) =
     [if is_breakaway sy file then removeEnvs envp
      else if requires_ptrace sy file then RemoveLDPreloadFromEnv (ensureEnvs bxl envp)
      else ensureEnvs bxl envp]"
  by (simp add: passed_envs_def exec_choice_forwarded)

lemma fd_to_path_forwarded:
  "forwarded (snd (fd_to_path sy fd bxl)) = forwarded bxl"
  by (simp add: fd_to_path_def split: option.split)

lemma exec_passes_Inr:
  "exec_passes bxl (Inr out) = Some (passed_envs bxl (snd out))"
  by (simp add: exec_passes_def split_beta)

lemma fexecve_passes:
  assumes "\<not> (\<not> is_breakaway sy (fst (fd_to_path sy fd bxl))
              \<and> requires_ptrace sy (fst (fd_to_path sy fd bxl)))"
  shows "exec_passes bxl (fexecve sy r fd argv envp bxl) =
     Some [if is_breakaway sy (fst (fd_to_path sy fd bxl)) then removeEnvs envp
           else ensureEnvs bxl envp]"
proof -
  have fw: "forwarded (snd (case fwd_fexecve fd e r bxl of
                (None, bxl) \<Rightarrow> (None, bxl)
              | (Some result, bxl) \<Rightarrow>
                  (let (path, bxl) = fd_to_path sy fd bxl;
                       event = ExecSandboxEvent ''fexecve'' (getpid bxl) (getppid bxl) path
                                 (GetProcessCommandLine argv);
                       event = SetErrno (get_errno result) event;
                       bxl = CreateAndReportAccess sy event True bxl;
                       (ret, bxl) = restore result bxl
                   in (Some ret, bxl))))
            = forwarded bxl @ [RealExecFd ''fexecve'' fd e]" for e
    by (simp add: fwd_fexecve_def Let_def split_beta CreateAndReportAccess_def CreateAccess_eq
          SendReport_def restore_def fd_to_path_forwarded split: option.split)
  show ?thesis
    using assms
    by (auto simp add: fexecve_def Let_def exec_passes_Inr passed_envs_def fw)
qed

lemma interposed_exec_passes:
  assumes "exec_target sy bxl call = Some target"
      and "\<not> (is_fexecve call \<and> \<not> is_breakaway sy target \<and> requires_ptrace sy target)"
  shows "exec_passes bxl (interposed_exec sy r call bxl) =
     Some [if is_breakaway sy target then removeEnvs (caller_env bxl call)
           else if requires_ptrace sy target
           then RemoveLDPreloadFromEnv (ensureEnvs bxl (caller_env bxl call))
           else ensureEnvs bxl (caller_env bxl call)]"
proof (cases call)
  case (Fexecve fd argv envp)
  have t: "target = fst (fd_to_path sy fd bxl)" using assms(1) Fexecve by simp
  have "\<not> (\<not> is_breakaway sy (fst (fd_to_path sy fd bxl))
            \<and> requires_ptrace sy (fst (fd_to_path sy fd bxl)))"
    using assms(2) Fexecve t by simp
  from fexecve_passes [OF this, of r argv envp] show ?thesis
    using Fexecve t assms(2) by auto
qed (use assms in \<open>auto simp add: execv_def execve_def execvp_def execvpe_def execl_def execlp_def
      execle_def exec_passes_Inr exec_choice_passed split: if_splits option.splits\<close>)

lemma failed_search_passes:
  assumes "resolve_filename_with_env sy file = None"
  shows "exec_passes bxl (interposed_exec sy r (Execvp file argv) bxl)
           = Some [ensureEnvs bxl (environ bxl)]"
    and "exec_passes bxl (interposed_exec sy r (Execvpe file argv envp) bxl)
           = Some [ensureEnvs bxl envp]"
  using assms
  by (simp_all add: execvp_def execvpe_def exec_passes_Inr passed_envs_def
        report_exec_failure_forwarded fwd_exec_def)

text \<open>
  C7, as amended. For every call of the exec family: when the call resolves a target
  that is a breakaway executable, the real exec gets the caller's environment with the
  preload and FAM-path variables removed. Otherwise, when the target needs the tracer
  (fexecve apart), the ptrace sandbox gets the environment with the FAM-path variable
  ensured and the preload variable removed; when it does not, the real exec gets the
  environment with both variables present, each injected when it was missing and the
  caller's entries kept; and so it does when the PATH search of execvp or execvpe finds
  nothing.
\<close>

theorem C7_exec_environment:
  "(exec_target sy bxl call = Some target \<and> is_breakaway sy target \<longrightarrow>
      exec_passes bxl (interposed_exec sy r call bxl) = Some [removeEnvs (caller_env bxl call)]
      \<and> \<not> has_env LD_PRELOAD (removeEnvs (caller_env bxl call))
      \<and> \<not> has_env BXL_FAM_PATH (removeEnvs (caller_env bxl call)))
   \<and> (exec_target sy bxl call = Some target \<and> \<not> is_breakaway sy target
        \<and> \<not> requires_ptrace sy target \<longrightarrow>
      exec_passes bxl (interposed_exec sy r call bxl) = Some [ensureEnvs bxl (caller_env bxl call)]
      \<and> has_env LD_PRELOAD (ensureEnvs bxl (caller_env bxl call))
      \<and> has_env BXL_FAM_PATH (ensureEnvs bxl (caller_env bxl call))
      \<and> set (caller_env bxl call) \<subseteq> set (ensureEnvs bxl (caller_env bxl call)))
   \<and> (exec_target sy bxl call = Some target \<and> \<not> is_breakaway sy target
        \<and> requires_ptrace sy target \<and> \<not> is_fexecve call \<longrightarrow>
      exec_passes bxl (interposed_exec sy r call bxl)
        = Some [RemoveLDPreloadFromEnv (ensureEnvs bxl (caller_env bxl call))]
      \<and> \<not> has_env LD_PRELOAD (RemoveLDPreloadFromEnv (ensureEnvs bxl (caller_env bxl call)))
      \<and> has_env BXL_FAM_PATH (RemoveLDPreloadFromEnv (ensureEnvs bxl (caller_env bxl call))))
   \<and> (resolve_filename_with_env sy file = None \<longrightarrow>
      exec_passes bxl (interposed_exec sy r (Execvp file argv) bxl)
        = Some [ensureEnvs bxl (environ bxl)]
      \<and> exec_passes bxl (interposed_exec sy r (Execvpe file argv envp) bxl)
        = Some [ensureEnvs bxl envp])
   \<and> (has_env LD_PRELOAD envp \<and> has_env BXL_FAM_PATH envp \<longrightarrow> ensureEnvs bxl envp = envp)"
proof -
  have a: "exec_target sy bxl call = Some target \<and> is_breakaway sy target \<longrightarrow>
      exec_passes bxl (interposed_exec sy r call bxl) = Some [removeEnvs (caller_env bxl call)]"
    using interposed_exec_passes [of sy bxl call target r] by simp
  have b: "exec_target sy bxl call = Some target \<and> \<not> is_breakaway sy target
        \<and> \<not> requires_ptrace sy target \<longrightarrow>
      exec_passes bxl (interposed_exec sy r call bxl) = Some [ensureEnvs bxl (caller_env bxl call)]"
    using interposed_exec_passes [of sy bxl call target r] by simp
  have c: "exec_target sy bxl call = Some target \<and> \<not> is_breakaway sy target
        \<and> requires_ptrace sy target \<and> \<not> is_fexecve call \<longrightarrow>
      exec_passes bxl (interposed_exec sy r call bxl)
        = Some [RemoveLDPreloadFromEnv (ensureEnvs bxl (caller_env bxl call))]"
    using interposed_exec_passes [of sy bxl call target r] by simp
  have d: "resolve_filename_with_env sy file = None \<longrightarrow>
      exec_passes bxl (interposed_exec sy r (Execvp file argv) bxl)
        = Some [ensureEnvs bxl (environ bxl)]
      \<and> exec_passes bxl (interposed_exec sy r (Execvpe file argv envp) bxl)
        = Some [ensureEnvs bxl envp]"
    by (simp add: failed_search_passes del: interposed_exec.simps)
  show ?thesis
    using a b c d
    by (simp add: removeEnvs_has ensureEnvs_has ptrace_env_has ensureEnvs_keeps)
qed

theorem C7_exec_environment_witness:
  "exec_passes bxl0 (interposed_exec sys_exec None
       (Execve ''/bin/away'' [''away''] [(LD_PRELOAD, ''/opt/libDetours.so''), (''HOME'', ''/root'')]) bxl0)
     = Some [[(''HOME'', ''/root'')]]
   \<and> exec_passes bxl0 (interposed_exec sys_exec None
       (Execve ''/bin/tool'' [''tool''] [(''HOME'', ''/root'')]) bxl0)
     = Some [[(''HOME'', ''/root''), (LD_PRELOAD, ''/opt/libDetours.so''), (BXL_FAM_PATH, ''/tmp/fam'')]]
   \<and> exec_passes bxl0 (interposed_exec sys_exec None
       (Execve ''/bin/static'' [''static''] [(''HOME'', ''/root'')]) bxl0)
     = Some [[(''HOME'', ''/root''), (BXL_FAM_PATH, ''/tmp/fam'')]]
   \<and> exec_passes bxl0 (interposed_exec sys_exec None
       (Execvpe ''tool'' [''tool''] [(''HOME'', ''/root'')]) bxl0)
     = Some [[(''HOME'', ''/root''), (LD_PRELOAD, ''/opt/libDetours.so''), (BXL_FAM_PATH, ''/tmp/fam'')]]
   \<and> exec_passes bxl0 (interposed_exec sys_exec None (Execvp ''tool'' [''tool'']) bxl0)
     = Some [[(LD_PRELOAD, ''/opt/libDetours.so''), (BXL_FAM_PATH, ''/tmp/fam'')]]
   \<and> ensureEnvs bxl0 [(LD_PRELOAD, ''/opt/libDetours.so''), (BXL_FAM_PATH, ''/tmp/fam'')]
     = [(LD_PRELOAD, ''/opt/libDetours.so''), (BXL_FAM_PATH, ''/tmp/fam'')]"
proof -
  have b: "is_breakaway sys_exec ''/bin/away''" "\<not> is_breakaway sys_exec ''/bin/tool''"
    "\<not> is_breakaway sys_exec ''/bin/static''" "\<not> requires_ptrace sys_exec ''/bin/tool''"
    "requires_ptrace sys_exec ''/bin/static''" "resolve_filename_with_env sys_exec ''tool'' = None"
    by (simp_all add: sys_exec_def sys0_def)
  have e: "removeEnvs [(LD_PRELOAD, ''/opt/libDetours.so''), (''HOME'', ''/root'')] = [(''HOME'', ''/root'')]"
    "ensureEnvs bxl0 [(''HOME'', ''/root'')]
       = [(''HOME'', ''/root''), (LD_PRELOAD, ''/opt/libDetours.so''), (BXL_FAM_PATH, ''/tmp/fam'')]"
    "RemoveLDPreloadFromEnv [(''HOME'', ''/root''), (LD_PRELOAD, ''/opt/libDetours.so''), (BXL_FAM_PATH, ''/tmp/fam'')]
       = [(''HOME'', ''/root''), (BXL_FAM_PATH, ''/tmp/fam'')]"
    "ensureEnvs bxl0 (environ bxl0) = [(LD_PRELOAD, ''/opt/libDetours.so''), (BXL_FAM_PATH, ''/tmp/fam'')]"
    by (simp_all add: removeEnvs_def ensureEnvs_def ensure_env_def has_env_def RemoveLDPreloadFromEnv_def
          LD_PRELOAD_def BXL_FAM_PATH_def bxl0_def)
  have h: "has_env LD_PRELOAD [(LD_PRELOAD, ''/opt/libDetours.so''), (BXL_FAM_PATH, ''/tmp/fam'')]"
    "has_env BXL_FAM_PATH [(LD_PRELOAD, ''/opt/libDetours.so''), (BXL_FAM_PATH, ''/tmp/fam'')]"
    by (simp_all add: has_env_def LD_PRELOAD_def BXL_FAM_PATH_def)
  have k: "ensureEnvs bxl0 [(LD_PRELOAD, ''/opt/libDetours.so''), (BXL_FAM_PATH, ''/tmp/fam'')]
     = [(LD_PRELOAD, ''/opt/libDetours.so''), (BXL_FAM_PATH, ''/tmp/fam'')]"
    using h
      C7_exec_environment [of sys_exec bxl0 "Execv ''/bin/tool'' [''tool'']" "''/bin/tool''" None
        "''tool''" "[''tool'']" "[(LD_PRELOAD, ''/opt/libDetours.so''), (BXL_FAM_PATH, ''/tmp/fam'')]"]
    by blast
  show ?thesis
    using b k
      C7_exec_environment [of sys_exec bxl0
        "Execve ''/bin/away'' [''away''] [(LD_PRELOAD, ''/opt/libDetours.so''), (''HOME'', ''/root'')]"
        "''/bin/away''" None "''tool''" "[''tool'']" "[(''HOME'', ''/root'')]"]
      C7_exec_environment [of sys_exec bxl0
        "Execve ''/bin/tool'' [''tool''] [(''HOME'', ''/root'')]" "''/bin/tool''" None
        "''tool''" "[''tool'']" "[(''HOME'', ''/root'')]"]
      C7_exec_environment [of sys_exec bxl0
        "Execve ''/bin/static'' [''static''] [(''HOME'', ''/root'')]" "''/bin/static''" None
        "''tool''" "[''tool'']" "[(''HOME'', ''/root'')]"]
    by (simp add: e)
qed

text \<open>
  C7 as stated fails: a target that is not breakaway but needs the tracer is executed
  without the preload variable, although the caller's environment held it.
\<close>

theorem C7_ptrace_strips_preload_counterexample:
  "\<not> is_breakaway sys_exec ''/bin/static''
   \<and> passed_envs bxl0 (snd (execve sys_exec None ''/bin/static'' [''static'']
        [(LD_PRELOAD, ''/opt/libDetours.so''), (BXL_FAM_PATH, ''/tmp/fam'')] bxl0))
       = [[(BXL_FAM_PATH, ''/tmp/fam'')]]
   \<and> \<not> has_env LD_PRELOAD [(BXL_FAM_PATH, ''/tmp/fam'')]"
  by (simp add: execve_def exec_choice_def handle_exec_with_ptrace_def passed_envs_def Let_def
        reset_fd_table_def sys_exec_def sys0_def bxl0_def ensureEnvs_def ensure_env_def has_env_def
        RemoveLDPreloadFromEnv_def LD_PRELOAD_def BXL_FAM_PATH_def)

text \<open>
  When the PATH search finds nothing, execvp passes the ensured environment, and execlp
  passes the process environment as it is.
\<close>

lemma execlp_unresolved_environment:
  "resolve_filename_with_env sys_exec ''tool'' = None
   \<and> passed_envs bxl0 (snd (execlp sys_exec None 1 ''tool'' [''tool''] bxl0)) = [[]]
   \<and> passed_envs bxl0 (snd (execvp sys_exec None ''tool'' [''tool''] bxl0))
       = [[(LD_PRELOAD, ''/opt/libDetours.so''), (BXL_FAM_PATH, ''/tmp/fam'')]]"
  by (simp add: execlp_def execvp_def report_exec_failure_def fwd_exec_def passed_envs_def
        sys_exec_def sys0_def bxl0_def ensureEnvs_def ensure_env_def has_env_def
        LD_PRELOAD_def BXL_FAM_PATH_def)


text \<open>
  A descriptor whose target is not breakaway and needs the tracer: fexecve reaches the
  overload of \<^verbatim>\<open>handle_exec_with_ptrace\<close> for a descriptor, whatever the environment.
\<close>

lemma fexecve_tracer_branch:
  assumes "\<not> is_breakaway sy (fst (fd_to_path sy fd bxl))"
      and "requires_ptrace sy (fst (fd_to_path sy fd bxl))"
  shows "fexecve sy r fd argv envp bxl = Inl DanglingCStr"
  using assms by (simp add: fexecve_def handle_exec_with_ptrace_fd_def split_beta Let_def)

subsection \<open>The FD table across closes, rebinds and opens\<close>

lemma check_fwd_and_report_fd_table:
  "fd_table (snd (check_fwd_and_report sy name ev v r bxl)) = fd_table bxl"
  by (simp add: check_fwd_and_report_def fwd_def restore_def SendReport_def Let_def)

lemma CreateFileOpen_fd_table:
  "fd_table (snd (CreateFileOpen sy p fl bxl)) = fd_table bxl"
  by (simp add: CreateFileOpen_snd)

lemma close_resets:
  "fd_table (snd (close real_close fd bxl)) = (fd_table bxl)(fd := None)"
  "fd_table (snd (fclose real_fclose f bxl)) = (fd_table bxl)(fileno f := None)"
  "fd_table (snd (closedir real_closedir d bxl)) = (fd_table bxl)(dirfd d := None)"
  by (simp_all add: close_def fclose_def closedir_def reset_fd_table_entry_def fwd_def restore_def)

lemma dup_resets:
  "fd_table (snd (dup real_dup fd bxl)) = (fd_table bxl)(fst (dup real_dup fd bxl) := None)"
  "fd_table (snd (dup2 real_dup2 oldfd newfd bxl)) = (fd_table bxl)(newfd := None)"
  "fd_table (snd (dup3 real_dup3 oldfd newfd flags bxl)) = (fd_table bxl)(newfd := None)"
  by (simp_all add: dup_def dup2_def dup3_def real_def ret_fd_def reset_fd_table_entry_def)

lemma dup_returns:
  "fst (dup real_dup fd bxl) = get (real_dup fd)"
  "fst (dup2 real_dup2 oldfd newfd bxl) = get (real_dup2 (oldfd, newfd))"
  by (simp_all add: dup_def dup2_def real_def ret_fd_def Let_def)

lemma open_resets:
  "fd_table (snd (open' sy real_open path oflag md bxl))
     = (fd_table bxl)(fst (open' sy real_open path oflag md bxl) := None)"
  by (simp add: open'_def Let_def split_beta ret_fd_def reset_fd_table_entry_def
        check_fwd_and_report_fd_table CreateFileOpen_fd_table)

lemma openat_resets:
  "fd_table (snd (openat sy real_openat dfd path oflag md bxl))
     = (fd_table bxl)(fst (openat sy real_openat dfd path oflag md bxl) := None)"
  by (simp add: openat_def Let_def split_beta ret_fd_def reset_fd_table_entry_def
        check_fwd_and_report_fd_table CreateFileOpen_fd_table)

lemma fopen_resets:
  "fd_table (snd (fopen sy real_fopen path md bxl))
     = (case fst (fopen sy real_fopen path md bxl) of
          Some stream \<Rightarrow> (fd_table bxl)(fileno stream := None)
        | None \<Rightarrow> fd_table bxl)"
  by (simp add: fopen_def Let_def split_beta CreateAccess_eq reset_fd_table_entry_def
        check_fwd_and_report_fd_table split: option.split)

lemma freopen_resets:
  "fd_table (snd (freopen sy real_freopen path md stream bxl))
     = (case fst (freopen sy real_freopen path md stream bxl) of
          Some stream' \<Rightarrow> (fd_table bxl)(fileno stream' := None)
        | None \<Rightarrow> fd_table bxl)"
  by (simp add: freopen_def Let_def split_beta CreateAccess_eq reset_fd_table_entry_def
        check_fwd_and_report_fd_table split: option.split)

lemma fd_to_path_coherent:
  assumes "coherent (k, bxl)"
  shows "fst (fd_to_path (on_kernel sy k) fd bxl) = (case k fd of Some path \<Rightarrow> path | None \<Rightarrow> [])"
    and "coherent (k, snd (fd_to_path (on_kernel sy k) fd bxl))"
  using assms
  by (auto simp add: fd_to_path_def coherent_def on_kernel_def split: option.splits)

lemma coherent_reset:
  assumes "coherent (k, bxl)" "fd_table bxl' = (fd_table bxl)(fd := None)" "\<And>x. x \<noteq> fd \<Longrightarrow> k' x = k x"
  shows "coherent (k', bxl')"
  using assms by (auto simp add: coherent_def)

lemma coherent_same:
  assumes "coherent (k, bxl)" "fd_table bxl' = fd_table bxl"
  shows "coherent (k, bxl')"
  using assms by (auto simp add: coherent_def)

lemma kernel_only_at:
  "x \<noteq> fd \<Longrightarrow> snd (kernel_close k fd) x = k x"
  "x \<noteq> newfd \<Longrightarrow> snd (kernel_dup2 k oldfd newfd) x = k x"
  "x \<noteq> get (fst (kernel_dup k fd newfd)) \<Longrightarrow> snd (kernel_dup k fd newfd) x = k x"
  "x \<noteq> get (fst (kernel_open k path newfd)) \<Longrightarrow> snd (kernel_open k path newfd) x = k x"
  by (auto simp add: kernel_close_def kernel_dup2_def kernel_dup_def kernel_open_def
        split: if_splits)

lemma check_fwd_and_report_cases:
  "fst (check_fwd_and_report sy name ev v r bxl)
     = (if should_deny (GetSourceAccessCheckResult sy ev) then v else get r)"
  "forwarded (snd (check_fwd_and_report sy name ev v r bxl))
     = forwarded bxl @ (if should_deny (GetSourceAccessCheckResult sy ev) then [] else [Real name])"
  by (simp_all add: check_fwd_and_report_def fwd_def restore_def SendReport_def Let_def)

lemma CreateFileOpen_forwarded:
  "forwarded (snd (CreateFileOpen sy p fl bxl)) = forwarded bxl"
  by (simp add: CreateFileOpen_snd)

lemma open_cases:
  "fst (open' sy real_open path oflag md bxl)
     = (if Real ''open'' \<in> set (drop (length (forwarded bxl))
                                   (forwarded (snd (open' sy real_open path oflag md bxl))))
        then get (real_open (path, oflag, md)) else - 1)"
  by (simp add: open'_def Let_def split_beta ret_fd_def reset_fd_table_entry_def
        check_fwd_and_report_cases CreateFileOpen_forwarded ERROR_RETURN_VALUE_def)

lemma fopen_cases:
  "fst (fopen sy real_fopen path md bxl)
     = (if Real ''fopen'' \<in> set (drop (length (forwarded bxl))
                                   (forwarded (snd (fopen sy real_fopen path md bxl))))
        then get (real_fopen (path, md)) else None)"
  by (simp add: fopen_def Let_def split_beta CreateAccess_eq reset_fd_table_entry_def
        check_fwd_and_report_cases split: option.split)

lemma freopen_cases:
  "fst (freopen sy real_freopen path md stream bxl)
     = (if Real ''freopen'' \<in> set (drop (length (forwarded bxl))
                                   (forwarded (snd (freopen sy real_freopen path md stream bxl))))
        then get (real_freopen (path, md, stream)) else None)"
  by (simp add: freopen_def Let_def split_beta CreateAccess_eq reset_fd_table_entry_def
        check_fwd_and_report_cases split: option.split)


text \<open>
  Every call on descriptors but a freopen whose open fails keeps the table coherent:
  the descriptor it closes, rebinds or returns has no entry afterwards, and no other
  descriptor changes in the kernel.
\<close>

lemma fd_step_coherent:
  assumes "coherent w" "\<not> failed_freopen call"
  shows "coherent (fd_step sy call w)"
proof (cases w)
  case (Pair k bxl)
  have c: "coherent (k, bxl)" using assms(1) Pair by simp
  show ?thesis
  proof (cases call)
    case (Close fd)
    show ?thesis unfolding Pair Close fd_step.simps
      by (rule coherent_reset [OF c close_resets(1)]) (rule kernel_only_at)
  next
    case (Fclose f)
    show ?thesis unfolding Pair Fclose fd_step.simps
      by (rule coherent_reset [OF c close_resets(2)]) (rule kernel_only_at)
  next
    case (Closedir d)
    show ?thesis unfolding Pair Closedir fd_step.simps
      by (rule coherent_reset [OF c close_resets(3)]) (rule kernel_only_at)
  next
    case (Dup fd newfd)
    show ?thesis unfolding Pair Dup fd_step.simps
      by (rule coherent_reset [OF c dup_resets(1)]) (simp add: dup_returns kernel_only_at)
  next
    case (Dup2 oldfd newfd)
    show ?thesis unfolding Pair Dup2 fd_step.simps
      by (rule coherent_reset [OF c dup_resets(2)]) (rule kernel_only_at)
  next
    case (Dup3 oldfd newfd flags)
    show ?thesis unfolding Pair Dup3 fd_step.simps
      by (rule coherent_reset [OF c dup_resets(3)]) (rule kernel_only_at)
  next
    case (Open path oflag newfd)
    let ?real = "\<lambda>(path, oflag, md :: mode_t). fst (kernel_open k path newfd)"
    let ?after = "open' (on_kernel sy k) ?real path oflag 0 bxl"
    show ?thesis unfolding Pair Open fd_step.simps Let_def
    proof (rule coherent_reset [OF c open_resets])
      fix x assume "x \<noteq> fst ?after"
      then show "(if Real ''open'' \<in> set (drop (length (forwarded bxl)) (forwarded (snd ?after)))
                  then snd (kernel_open k path newfd) else k) x = k x"
        using open_cases [of "on_kernel sy k" ?real path oflag 0 bxl]
        by (auto simp add: kernel_only_at split: if_splits)
    qed
  next
    case (Fopen path md newfd)
    let ?real = "\<lambda>(path, md :: string).
                   \<lparr>get = (if get (fst (kernel_open k path newfd)) = - 1 then None
                           else Some \<lparr>fileno = newfd\<rparr>),
                    get_errno = get_errno (fst (kernel_open k path newfd))\<rparr>"
    let ?after = "fopen (on_kernel sy k) ?real path md bxl"
    let ?k' = "if Real ''fopen'' \<in> set (drop (length (forwarded bxl)) (forwarded (snd ?after)))
               then snd (kernel_open k path newfd) else k"
    have cases: "fst ?after = None \<and> ?k' = k
                 \<or> fst ?after = Some \<lparr>fileno = newfd\<rparr> \<and> (\<forall>x. x \<noteq> newfd \<longrightarrow> ?k' x = k x)"
      using fopen_cases [of "on_kernel sy k" ?real path md bxl]
      by (auto simp add: kernel_open_def split: if_splits)
    show ?thesis unfolding Pair Fopen fd_step.simps Let_def
      using cases
    proof
      assume a: "fst ?after = None \<and> ?k' = k"
      have "fd_table (snd ?after) = fd_table bxl"
        using fopen_resets [of "on_kernel sy k" ?real path md bxl] a by simp
      then have "coherent (k, snd ?after)" by (rule coherent_same [OF c])
      then show "coherent (?k', snd ?after)" using a by simp
    next
      assume a: "fst ?after = Some \<lparr>fileno = newfd\<rparr> \<and> (\<forall>x. x \<noteq> newfd \<longrightarrow> ?k' x = k x)"
      have "fd_table (snd ?after) = (fd_table bxl)(newfd := None)"
        using fopen_resets [of "on_kernel sy k" ?real path md bxl] a by simp
      then show "coherent (?k', snd ?after)"
        using a by (intro coherent_reset [OF c]) auto
    qed
  next
    case (Freopen path md stream succeeds)
    let ?real = "\<lambda>(path, md :: string, stream). fst (kernel_freopen k path stream succeeds)"
    let ?after = "freopen (on_kernel sy k) ?real path md stream bxl"
    let ?k' = "if Real ''freopen'' \<in> set (drop (length (forwarded bxl)) (forwarded (snd ?after)))
               then snd (kernel_freopen k path stream succeeds) else k"
    have ok: "succeeds \<and> 0 \<le> fileno stream"
      using assms(2) Freopen by (simp add: failed_freopen_def)
    have cases: "fst ?after = None \<and> ?k' = k
                 \<or> fst ?after = Some stream \<and> (\<forall>x. x \<noteq> fileno stream \<longrightarrow> ?k' x = k x)"
      using freopen_cases [of "on_kernel sy k" ?real path md stream bxl] ok
      by (auto simp add: kernel_freopen_def split: if_splits)
    show ?thesis unfolding Pair Freopen fd_step.simps Let_def
      using cases
    proof
      assume a: "fst ?after = None \<and> ?k' = k"
      have "fd_table (snd ?after) = fd_table bxl"
        using freopen_resets [of "on_kernel sy k" ?real path md stream bxl] a by simp
      then have "coherent (k, snd ?after)" by (rule coherent_same [OF c])
      then show "coherent (?k', snd ?after)" using a by simp
    next
      assume a: "fst ?after = Some stream \<and> (\<forall>x. x \<noteq> fileno stream \<longrightarrow> ?k' x = k x)"
      have "fd_table (snd ?after) = (fd_table bxl)(fileno stream := None)"
        using freopen_resets [of "on_kernel sy k" ?real path md stream bxl] a by simp
      then show "coherent (?k', snd ?after)"
        using a by (intro coherent_reset [OF c]) auto
    qed
  next
    case (FdToPath fd)
    show ?thesis unfolding Pair FdToPath fd_step.simps
      by (rule fd_to_path_coherent(2) [OF c])
  qed
qed

lemma fd_run_coherent:
  assumes "coherent w" "list_all (\<lambda>call. \<not> failed_freopen call) calls"
  shows "coherent (fd_run sy calls w)"
  using assms
proof (induction calls arbitrary: w)
  case Nil
  then show ?case by (simp add: fd_run_def)
next
  case (Cons call calls)
  have "coherent (fd_step sy call w)"
    using Cons.prems by (simp add: fd_step_coherent)
  then have "coherent (fd_run sy calls (fd_step sy call w))"
    using Cons.prems by (intro Cons.IH) simp_all
  then show ?case by (simp add: fd_run_def)
qed

lemma coherent_never_stale:
  assumes "coherent w"
  shows "\<not> stale w fd"
    and "fst (fd_to_path (on_kernel sy (fst w)) fd (snd w)) = (case fst w fd of Some path \<Rightarrow> path | None \<Rightarrow> [])"
proof -
  show "\<not> stale w fd"
    using assms by (cases "fd_table (snd w) fd") (auto simp add: coherent_def stale_def)
  show "fst (fd_to_path (on_kernel sy (fst w)) fd (snd w))
          = (case fst w fd of Some path \<Rightarrow> path | None \<Rightarrow> [])"
    using assms fd_to_path_coherent(1) [of "fst w" "snd w" sy fd] by simp
qed

text \<open>
  C8. close, fclose and closedir reset the entry of the descriptor they close, dup2 and
  dup3 that of the target before the rebind, the open and fopen families and dup that
  of the descriptor they return (the lemmas above), and over these calls the table
  never holds a stale path. The interposed freopen resets an entry only when the real
  freopen returns a stream; when its open fails the real freopen has still closed the
  descriptor of the stream, and the entry of that descriptor stays. After fopen of
  \<open>/a\<close> on descriptor 3, a lookup of 3 and a freopen of a missing file on that stream,
  descriptor 3 is closed and the table still answers \<open>/a\<close> for it; with fclose in the
  place of freopen it does not.
\<close>

theorem C8_failed_freopen_leaves_stale_entry:
  "fst (fd_run sys0 [Fopen ''/a'' ''r'' 3, FdToPath 3, Freopen ''/missing'' ''r'' \<lparr>fileno = 3\<rparr> False]
          (Map.empty, bxl0)) 3 = None
   \<and> fd_table (snd (fd_run sys0
          [Fopen ''/a'' ''r'' 3, FdToPath 3, Freopen ''/missing'' ''r'' \<lparr>fileno = 3\<rparr> False]
          (Map.empty, bxl0))) 3 = Some ''/a''
   \<and> stale (fd_run sys0
          [Fopen ''/a'' ''r'' 3, FdToPath 3, Freopen ''/missing'' ''r'' \<lparr>fileno = 3\<rparr> False]
          (Map.empty, bxl0)) 3
   \<and> \<not> stale (fd_run sys0 [Fopen ''/a'' ''r'' 3, FdToPath 3, Fclose \<lparr>fileno = 3\<rparr>]
          (Map.empty, bxl0)) 3"
  by (simp add: fd_run_def fopen_def freopen_def fclose_def fd_to_path_def on_kernel_def
        kernel_open_def kernel_freopen_def kernel_close_def stale_def
        CreateAccess_eq check_fwd_and_report_def fwd_def restore_def SendReport_def
        GetSourceAccessCheckResult_def should_deny_def AbsolutePathSandboxEvent_def
        get_event_from_open_mode_def SetErrno_def reset_fd_table_entry_def
        sys0_def bxl0_def Let_def)


subsection \<open>The readlink events of realpath\<close>

lemma CreateAndReportAccess_eq:
  "CreateAndReportAccess sy ev c bxl =
     bxl\<lparr>accesses := accesses bxl @ [ev\<lparr>access_check := Some (policy sy ev)\<rparr>],
         reports := reports bxl @ [ev\<lparr>access_check := Some (policy sy ev)\<rparr>]\<rparr>"
  by (simp add: CreateAndReportAccess_def CreateAccess_eq SendReport_def)

lemma report_symlinks_reports:
  "\<exists>sent. reports (report_symlinks sy cs p pp bxl) = reports bxl @ sent
          \<and> list_all (\<lambda>e. event_type e = kReadLink) sent
          \<and> map src_path sent = filter (is_symlink sy) cs"
proof (induction cs arbitrary: bxl)
  case Nil
  show ?case by simp
next
  case (Cons c cs)
  show ?case
  proof (cases "is_symlink sy c")
    case False
    then show ?thesis using Cons.IH [of bxl] by simp
  next
    case True
    let ?ev = "SetRequiredPathResolution kResolveNoFollow
                 (AbsolutePathSandboxEvent ''readlink'' kReadLink p pp 0 c)"
    let ?b = "CreateAndReportAccess sy ?ev True bxl"
    obtain sent where s: "reports (report_symlinks sy cs p pp ?b) = reports ?b @ sent"
        "list_all (\<lambda>e. event_type e = kReadLink) sent"
        "map src_path sent = filter (is_symlink sy) cs"
      using Cons.IH [of ?b] by blast
    have r: "reports ?b = reports bxl @ [?ev\<lparr>access_check := Some (policy sy ?ev)\<rparr>]"
      by (simp add: CreateAndReportAccess_eq)
    have k: "event_type (?ev\<lparr>access_check := Some (policy sy ?ev)\<rparr>) = kReadLink"
      "src_path (?ev\<lparr>access_check := Some (policy sy ?ev)\<rparr>) = c"
      by (simp_all add: SetRequiredPathResolution_def AbsolutePathSandboxEvent_def)
    show ?thesis
      apply (rule exI [of _ "?ev\<lparr>access_check := Some (policy sy ?ev)\<rparr> # sent"])
      using True s r k by (simp add: Let_def)
  qed
qed

lemma readlinks_sent_parts:
  assumes "reports after = reports before @ pre @ sent @ post"
      and "list_all (\<lambda>e. event_type e \<noteq> kReadLink) pre"
      and "list_all (\<lambda>e. event_type e \<noteq> kReadLink) post"
      and "list_all (\<lambda>e. event_type e = kReadLink) sent"
  shows "readlinks_sent before after = map src_path sent"
proof -
  have f: "filter (\<lambda>e. event_type e = kReadLink) xs = []"
    if "list_all (\<lambda>e. event_type e \<noteq> kReadLink) xs" for xs :: "SandboxEvent list"
    using that by (induction xs) auto
  have g: "filter (\<lambda>e. event_type e = kReadLink) sent = sent"
    using assms(4) by (induction sent) auto
  show ?thesis
    by (simp add: readlinks_sent_def assms(1) f [OF assms(2)] f [OF assms(3)] g)
qed

lemma realpath_readlinks:
  "readlinks_sent bxl (snd (realpath sy real_realpath (Some p) res bxl))
     = (if get (real_realpath (Some p, res)) = Some p then []
        else filter (is_symlink sy) (path_prefixes p))"
proof -
  let ?r = "real_realpath (Some p, res)"
  let ?b0 = "bxl\<lparr>forwarded := forwarded bxl @ [Real ''realpath''], errno := get_errno ?r\<rparr>"
  let ?probe = "SetRequiredPathResolution kResolveNoFollow
                  (AbsolutePathSandboxEvent ''realpath'' kGenericProbe (getpid bxl) (getppid bxl) 0 p)"
  let ?pe = "?probe\<lparr>access_check := Some (policy sy ?probe)\<rparr>"
  let ?b1 = "CreateAndReportAccess sy ?probe True ?b0"
  have b1: "reports ?b1 = reports bxl @ [?pe]" "getpid ?b1 = getpid bxl" "getppid ?b1 = getppid bxl"
    by (simp_all add: CreateAndReportAccess_eq)
  have pe: "event_type ?pe \<noteq> kReadLink"
    by (simp add: SetRequiredPathResolution_def AbsolutePathSandboxEvent_def)
  obtain sent where s:
      "reports (report_symlinks sy (path_prefixes p) (getpid bxl) (getppid bxl) ?b1)
         = reports ?b1 @ sent"
      "list_all (\<lambda>e. event_type e = kReadLink) sent"
      "map src_path sent = filter (is_symlink sy) (path_prefixes p)"
    using report_symlinks_reports by blast
  let ?b2 = "report_intermediate_symlinks sy p (getpid bxl) (getppid bxl) ?b1"
  have b2: "reports ?b2 = reports bxl @ [?pe] @ sent @ []"
    by (simp add: report_intermediate_symlinks_def s(1) b1(1))
  show ?thesis
  proof (cases "get ?r")
    case None
    have "snd (realpath sy real_realpath (Some p) res bxl) = ?b2"
      using None by (simp add: realpath_def fwd_def restore_def Let_def b1)
    then show ?thesis
      using None readlinks_sent_parts [OF b2] pe s(2,3) by simp
  next
    case (Some q)
    show ?thesis
    proof (cases "q = p")
      case True
      have "snd (realpath sy real_realpath (Some p) res bxl) = ?b1"
        using Some True by (simp add: realpath_def fwd_def restore_def Let_def)
      moreover have "reports ?b1 = reports bxl @ [?pe] @ [] @ []" using b1(1) by simp
      ultimately show ?thesis
        using Some True pe readlinks_sent_parts [of ?b1 bxl "[?pe]" "[]" "[]"] by simp
    next
      case False
      let ?probe2 = "AbsolutePathSandboxEvent ''realpath'' kGenericProbe (getpid ?b2) (getppid ?b2) 0 q"
      let ?pe2 = "?probe2\<lparr>access_check := Some (policy sy ?probe2)\<rparr>"
      let ?b3 = "CreateAndReportAccess sy ?probe2 True ?b2"
      have b3: "reports ?b3 = reports bxl @ [?pe] @ sent @ [?pe2]"
        using b2 by (simp add: CreateAndReportAccess_eq)
      have pe2: "event_type ?pe2 \<noteq> kReadLink"
        by (simp add: AbsolutePathSandboxEvent_def)
      have "snd (realpath sy real_realpath (Some p) res bxl) = ?b3"
        using Some False by (simp add: realpath_def fwd_def restore_def Let_def b1)
      then show ?thesis
        using Some False readlinks_sent_parts [OF b3] pe pe2 s(2,3) by simp
    qed
  qed
qed

lemma realpath_null:
  "snd (realpath sy real_realpath None res bxl)
     = bxl\<lparr>forwarded := forwarded bxl @ [Real ''realpath''],
           errno := get_errno (real_realpath (None, res))\<rparr>"
  by (simp add: realpath_def fwd_def restore_def)

text \<open>
  C6. Among the reports an interposed realpath adds, the readlink events are, in order,
  one for each component of the input path that is a symlink, provided the real
  realpath hands back its input only when no component of it is a symlink (it resolves
  every symlink it meets); their number is then the number of symlinked components.
  When the returned path equals the input no readlink event is sent; no readlink event
  is ever sent for a component that is not a symlink; a null path sends none. Reports
  are counted as handed to the reporter.
\<close>

theorem C6_realpath_readlinks:
  "((get (real_realpath (Some p, res)) = Some p \<longrightarrow> filter (is_symlink sy) (path_prefixes p) = [])
      \<longrightarrow> readlinks_sent bxl (snd (realpath sy real_realpath (Some p) res bxl))
            = filter (is_symlink sy) (path_prefixes p)
          \<and> length (readlinks_sent bxl (snd (realpath sy real_realpath (Some p) res bxl)))
            = length (filter (is_symlink sy) (path_prefixes p)))
   \<and> (get (real_realpath (Some p, res)) = Some p
        \<longrightarrow> readlinks_sent bxl (snd (realpath sy real_realpath (Some p) res bxl)) = [])
   \<and> list_all (is_symlink sy) (readlinks_sent bxl (snd (realpath sy real_realpath (Some p) res bxl)))
   \<and> readlinks_sent bxl (snd (realpath sy real_realpath None res bxl)) = []"
proof -
  have n: "readlinks_sent bxl (snd (realpath sy real_realpath None res bxl)) = []"
    by (simp add: realpath_null readlinks_sent_def)
  have a: "list_all (is_symlink sy) (filter (is_symlink sy) xs)" for xs
    by (induction xs) auto
  show ?thesis
    using n a [of "path_prefixes p"] by (simp add: realpath_readlinks)
qed

theorem C6_realpath_readlinks_witness:
  "path_prefixes ''/usr/lib/libc.so'' = [''/usr'', ''/usr/lib'', ''/usr/lib/libc.so'']
   \<and> readlinks_sent bxl0 (snd (realpath sys_links
         (\<lambda>a. \<lparr>get = Some ''/usr/lib64/libc.so'', get_errno = 0\<rparr>) (Some ''/usr/lib/libc.so'') () bxl0))
       = [''/usr/lib'']
   \<and> readlinks_sent bxl0 (snd (realpath sys_links
         (\<lambda>a. \<lparr>get = Some ''/etc/hosts'', get_errno = 0\<rparr>) (Some ''/etc/hosts'') () bxl0))
       = []"
proof -
  have p1: "path_prefixes ''/usr/lib/libc.so'' = [''/usr'', ''/usr/lib'', ''/usr/lib/libc.so'']"
    by (simp add: path_prefixes_def)
  have p2: "path_prefixes ''/etc/hosts'' = [''/etc'', ''/etc/hosts'']"
    by (simp add: path_prefixes_def)
  have f1: "filter (is_symlink sys_links) (path_prefixes ''/usr/lib/libc.so'') = [''/usr/lib'']"
    unfolding p1 by (simp add: sys_links_def)
  have f2: "filter (is_symlink sys_links) (path_prefixes ''/etc/hosts'') = []"
    unfolding p2 by (simp add: sys_links_def)
  have a: "readlinks_sent bxl0 (snd (realpath sys_links
         (\<lambda>a. \<lparr>get = Some ''/usr/lib64/libc.so'', get_errno = 0\<rparr>) (Some ''/usr/lib/libc.so'') () bxl0))
       = filter (is_symlink sys_links) (path_prefixes ''/usr/lib/libc.so'')"
    using C6_realpath_readlinks [of "\<lambda>a. \<lparr>get = Some ''/usr/lib64/libc.so'', get_errno = 0\<rparr>"
        "''/usr/lib/libc.so''" "()" sys_links bxl0]
    by simp
  have b: "readlinks_sent bxl0 (snd (realpath sys_links
         (\<lambda>a. \<lparr>get = Some ''/etc/hosts'', get_errno = 0\<rparr>) (Some ''/etc/hosts'') () bxl0))
       = filter (is_symlink sys_links) (path_prefixes ''/etc/hosts'')"
    using C6_realpath_readlinks [of "\<lambda>a. \<lparr>get = Some ''/etc/hosts'', get_errno = 0\<rparr>"
        "''/etc/hosts''" "()" sys_links bxl0] f2
    by simp
  show ?thesis
    unfolding a b f1 f2 using p1 by simp
qed


subsection \<open>readlink of the allocator's configuration file\<close>

text \<open>
  C9. A call of the interposed readlink whose path is exactly "/etc/malloc.conf" returns
  -1 with errno set to ENOENT; the real readlink is not invoked, no event is built or
  checked, and no report is sent: the state differs from the caller's in errno only.
\<close>

theorem C9_readlink_malloc_conf:
  "readlink sy real_readlink (Some ''/etc/malloc.conf'') bxl = (- 1, bxl\<lparr>errno := ENOENT\<rparr>)
   \<and> forwarded (snd (readlink sy real_readlink (Some ''/etc/malloc.conf'') bxl)) = forwarded bxl
   \<and> accesses (snd (readlink sy real_readlink (Some ''/etc/malloc.conf'') bxl)) = accesses bxl
   \<and> reports (snd (readlink sy real_readlink (Some ''/etc/malloc.conf'') bxl)) = reports bxl
   \<and> errno (snd (readlink sy real_readlink (Some ''/etc/malloc.conf'') bxl)) = 2"
  by (simp add: readlink_def ENOENT_def)

end
